theory Spec2Isabelle
  imports Main
begin

section \<open>Python values and exceptions\<close>

text \<open>
  The values a saved game can hold once \<^verbatim>\<open>persistence.load_game\<close> has read it: the
  integer fragment of JSON (floats are left out). A dictionary is an association list
  read from the left.
\<close>

datatype json =
    JNull
  | JBool bool
  | JInt int
  | JStr string
  | JList "json list"
  | JObj "(string \<times> json) list"

text \<open>
  The messages of the exceptions the sources raise. The Chinese texts of
  \<^verbatim>\<open>controller.py\<close> and \<^verbatim>\<open>gui.py\<close> are named by constructors (the line of the
  \<^verbatim>\<open>raise\<close> is given); the English texts of \<^verbatim>\<open>cli.py\<close> are kept as strings.
\<close>

datatype message =
    Unsupported_game_type        \<comment> \<open>controller.py, line 14\<close>
  | No_running_game              \<comment> \<open>controller.py, line 33\<close>
  | Pass_needs_go                \<comment> \<open>controller.py, line 46\<close>
  | Save_format_incorrect        \<comment> \<open>controller.py, line 78\<close>
  | Unknown_saved_game_type json \<comment> \<open>controller.py, line 84, with the rejected value\<close>
  | Save_lacks_board_size        \<comment> \<open>controller.py, line 87\<close>
  | Size_not_integer             \<comment> \<open>gui.py, line 123\<close>
  | Size_out_of_range            \<comment> \<open>gui.py, line 125\<close>
  | Text string

datatype exn =
    ValueError message
  | IOError message
  | TypeError
  | AttributeError
  | KeyError
  | Exception message

definition bindE :: "exn + 'a \<Rightarrow> ('a \<Rightarrow> exn + 'b) \<Rightarrow> exn + 'b" where
  "bindE m f = (case m of Inl e \<Rightarrow> Inl e | Inr v \<Rightarrow> f v)"

fun traverse :: "('a \<Rightarrow> exn + 'b) \<Rightarrow> 'a list \<Rightarrow> exn + 'b list" where
  "traverse f [] = Inr []"
| "traverse f (x # xs) =
     bindE (f x) (\<lambda>y. bindE (traverse f xs) (\<lambda>ys. Inr (y # ys)))"

fun starts_with :: "string \<Rightarrow> string \<Rightarrow> bool" where
  "starts_with s [] = True"
| "starts_with [] (k # ks) = False"
| "starts_with (c # s) (k # ks) = (c = k \<and> starts_with s ks)"

fun contains_str :: "string \<Rightarrow> string \<Rightarrow> bool" where
  "contains_str [] k = (k = [])"
| "contains_str (c # s) k = (starts_with (c # s) k \<or> contains_str s k)"

text \<open>\<^verbatim>\<open>key in value\<close> for a string key: a key of a dictionary, an element of a list,
  a substring of a string, and a TypeError on anything else.\<close>

fun py_in :: "string \<Rightarrow> json \<Rightarrow> exn + bool" where
  "py_in k (JObj kvs) = Inr (k \<in> set (map fst kvs))"
| "py_in k (JList xs) = Inr (JStr k \<in> set xs)"
| "py_in k (JStr s) = Inr (contains_str s k)"
| "py_in k JNull = Inl TypeError"
| "py_in k (JBool b) = Inl TypeError"
| "py_in k (JInt n) = Inl TypeError"

text \<open>\<^verbatim>\<open>value[key]\<close> for a string key: only a dictionary can be indexed by a string.\<close>

fun py_getitem :: "json \<Rightarrow> string \<Rightarrow> exn + json" where
  "py_getitem (JObj kvs) k = (case map_of kvs k of None \<Rightarrow> Inl KeyError | Some v \<Rightarrow> Inr v)"
| "py_getitem JNull k = Inl TypeError"
| "py_getitem (JBool b) k = Inl TypeError"
| "py_getitem (JInt n) k = Inl TypeError"
| "py_getitem (JStr s) k = Inl TypeError"
| "py_getitem (JList xs) k = Inl TypeError"

text \<open>\<^verbatim>\<open>value.get(key)\<close>: only a dictionary has it; a missing key gives None.\<close>

fun py_get :: "json \<Rightarrow> string \<Rightarrow> exn + json" where
  "py_get (JObj kvs) k = (case map_of kvs k of None \<Rightarrow> Inr JNull | Some v \<Rightarrow> Inr v)"
| "py_get JNull k = Inl AttributeError"
| "py_get (JBool b) k = Inl AttributeError"
| "py_get (JInt n) k = Inl AttributeError"
| "py_get (JStr s) k = Inl AttributeError"
| "py_get (JList xs) k = Inl AttributeError"

section \<open>The parts of the repository the controller imports\<close>

datatype GameType = GOMOKU | GO

datatype PlayerColor = BLACK | WHITE

datatype Position = Position int int

record GameResult =
  winner :: "PlayerColor option"
  reason :: string

text \<open>
  \<^verbatim>\<open>core/models.py\<close>, \<^verbatim>\<open>core/persistence.py\<close>, \<^verbatim>\<open>games/gomoku.py\<close> and
  \<^verbatim>\<open>games/go.py\<close> are not among the sources. What the controller and the user interfaces
  call in them is a parameter of the model: \<open>'e\<close> is the state of an engine object and
  \<open>'f\<close> the state of the file system. An operation that mutates the engine returns the
  exception it raised, if any, and the engine as it left it; a constructor or a reader
  returns its value or the exception.
\<close>

record ('e, 'f) env =
  GameType_value :: "GameType \<Rightarrow> string"
  game_type_from_string :: "string \<Rightarrow> exn + GameType"
  GomokuEngine :: "json \<Rightarrow> exn + 'e"
  GoEngine :: "json \<Rightarrow> exn + 'e"
  engine_play_move :: "Position \<Rightarrow> 'e \<Rightarrow> exn option \<times> 'e"
  engine_pass_turn :: "'e \<Rightarrow> exn option \<times> 'e"
  engine_undo :: "'e \<Rightarrow> exn option \<times> 'e"
  engine_resign :: "PlayerColor \<Rightarrow> 'e \<Rightarrow> exn option \<times> 'e"
  engine_restart :: "'e \<Rightarrow> exn option \<times> 'e"
  engine_serialize :: "'e \<Rightarrow> exn + json"
  engine_deserialize :: "json \<Rightarrow> 'e \<Rightarrow> exn option \<times> 'e"
  engine_current_player :: "'e \<Rightarrow> PlayerColor"
  engine_is_finished :: "'e \<Rightarrow> bool"
  engine_get_result :: "'e \<Rightarrow> exn + GameResult"
  engine_stones_on_board :: "'e \<Rightarrow> PlayerColor \<Rightarrow> int"
  engine_stones_remaining :: "'e \<Rightarrow> PlayerColor \<Rightarrow> int"
  engine_undo_remaining :: "'e \<Rightarrow> PlayerColor \<Rightarrow> int"
  board_size_of :: "'e \<Rightarrow> int"
  board_get :: "'e \<Rightarrow> Position \<Rightarrow> exn + PlayerColor option"
  persistence_save_game :: "string \<Rightarrow> json \<Rightarrow> 'f \<Rightarrow> exn option \<times> 'f"
  persistence_load_game :: "string \<Rightarrow> 'f \<Rightarrow> exn + json"

text \<open>\<^verbatim>\<open>GameType(value)\<close>: the member with that value, or a ValueError. The values of
  the members are strings, so no other JSON value equals one.\<close>

definition GameType_of_value :: "('e, 'f) env \<Rightarrow> json \<Rightarrow> exn + GameType" where
  "GameType_of_value env v =
     (if v = JStr (GameType_value env GOMOKU) then Inr GOMOKU
      else if v = JStr (GameType_value env GO) then Inr GO
      else Inl (ValueError (Text ''not a valid GameType'')))"

section \<open>core/controller.py\<close>

text \<open>\<^verbatim>\<open>create_engine\<close> ends with \<^verbatim>\<open>raise ValueError("Unsupported game type")\<close>
  for a game type that is neither member; \<open>GameType\<close> has no such value.\<close>

definition create_engine :: "('e, 'f) env \<Rightarrow> GameType \<Rightarrow> json \<Rightarrow> exn + 'e" where
  "create_engine env game_type board_size =
     (case game_type of
        GOMOKU \<Rightarrow> GomokuEngine env board_size
      | GO \<Rightarrow> GoEngine env board_size)"

record 'e GameController =
  engine :: "'e option"
  game_type :: "GameType option"
  board_size :: json

definition init_controller :: "'e GameController" where
  "init_controller = \<lparr>engine = None, game_type = None, board_size = JInt 0\<rparr>"

definition start_game ::
  "('e, 'f) env \<Rightarrow> GameType \<Rightarrow> json \<Rightarrow> 'e GameController \<Rightarrow> exn option \<times> 'e GameController"
where
  "start_game env gt bsize c =
     (case create_engine env gt bsize of
        Inl e \<Rightarrow> (Some e, c)
      | Inr eng \<Rightarrow> (None, c\<lparr>engine := Some eng, game_type := Some gt, board_size := bsize\<rparr>))"

definition require_engine :: "'e GameController \<Rightarrow> exn + 'e" where
  "require_engine c =
     (case engine c of
        None \<Rightarrow> Inl (ValueError No_running_game)
      | Some eng \<Rightarrow> Inr eng)"

text \<open>The engine methods mutate the one engine object the controller holds: the
  controller afterwards holds the engine as the operation left it, also when it raised.\<close>

definition on_engine ::
  "('e \<Rightarrow> exn option \<times> 'e) \<Rightarrow> 'e GameController \<Rightarrow> exn option \<times> 'e GameController"
where
  "on_engine m c =
     (case require_engine c of
        Inl e \<Rightarrow> (Some e, c)
      | Inr eng \<Rightarrow> (case m eng of (r, eng') \<Rightarrow> (r, c\<lparr>engine := Some eng'\<rparr>)))"

definition place_stone ::
  "('e, 'f) env \<Rightarrow> int \<Rightarrow> int \<Rightarrow> 'e GameController \<Rightarrow> exn option \<times> 'e GameController"
where
  "place_stone env row col c = on_engine (engine_play_move env (Position row col)) c"

definition pass_turn ::
  "('e, 'f) env \<Rightarrow> 'e GameController \<Rightarrow> exn option \<times> 'e GameController"
where
  "pass_turn env c =
     (case require_engine c of
        Inl e \<Rightarrow> (Some e, c)
      | Inr eng \<Rightarrow>
          if game_type c \<noteq> Some GO then (Some (ValueError Pass_needs_go), c)
          else (case engine_pass_turn env eng of (r, eng') \<Rightarrow> (r, c\<lparr>engine := Some eng'\<rparr>)))"

definition undo ::
  "('e, 'f) env \<Rightarrow> 'e GameController \<Rightarrow> exn option \<times> 'e GameController"
where
  "undo env c = on_engine (engine_undo env) c"

text \<open>\<^verbatim>\<open>color or engine.current_player\<close>: None is false and a member of an
  enumeration is true, so a given colour is the one that resigns.\<close>

definition resign ::
  "('e, 'f) env \<Rightarrow> PlayerColor option \<Rightarrow> 'e GameController \<Rightarrow> exn option \<times> 'e GameController"
where
  "resign env color c =
     on_engine
       (\<lambda>eng. engine_resign env
          (case color of None \<Rightarrow> engine_current_player env eng | Some k \<Rightarrow> k) eng) c"

definition restart ::
  "('e, 'f) env \<Rightarrow> 'e GameController \<Rightarrow> exn option \<times> 'e GameController"
where
  "restart env c = on_engine (engine_restart env) c"

definition save_payload :: "('e, 'f) env \<Rightarrow> 'e GameController \<Rightarrow> json \<Rightarrow> json" where
  "save_payload env c st =
     JObj [(''game_type'',
             (case game_type c of None \<Rightarrow> JNull | Some gt \<Rightarrow> JStr (GameType_value env gt))),
           (''state'', st)]"

definition save ::
  "('e, 'f) env \<Rightarrow> string \<Rightarrow> 'f \<Rightarrow> 'e GameController \<Rightarrow> exn option \<times> 'f"
where
  "save env file_path fs c =
     (case require_engine c of
        Inl e \<Rightarrow> (Some e, fs)
      | Inr eng \<Rightarrow>
          (case engine_serialize env eng of
             Inl e \<Rightarrow> (Some e, fs)
           | Inr st \<Rightarrow> persistence_save_game env file_path (save_payload env c st) fs))"

text \<open>Lines 77 to 87 of \<^verbatim>\<open>load\<close>: the checks of the payload, which touch nothing of
  the controller. They return the game type, the state and the board size.\<close>

definition load_checks ::
  "('e, 'f) env \<Rightarrow> json \<Rightarrow> exn + (GameType \<times> json \<times> json)"
where
  "load_checks env payload =
     bindE (py_in ''game_type'' payload) (\<lambda>has_type.
     bindE (if has_type then py_in ''state'' payload else Inr False) (\<lambda>has_state.
       if \<not> has_type \<or> \<not> has_state then Inl (IOError Save_format_incorrect)
       else
         bindE (py_getitem payload ''game_type'') (\<lambda>game_type_value.
         bindE (py_getitem payload ''state'') (\<lambda>state.
           (case GameType_of_value env game_type_value of
              Inl (ValueError m) \<Rightarrow> Inl (IOError (Unknown_saved_game_type game_type_value))
            | Inl e \<Rightarrow> Inl e
            | Inr gt \<Rightarrow>
                bindE (py_get state ''board_size'') (\<lambda>bsize.
                  if bsize = JNull then Inl (IOError Save_lacks_board_size)
                  else Inr (gt, state, bsize)))))))"

definition load ::
  "('e, 'f) env \<Rightarrow> string \<Rightarrow> 'f \<Rightarrow> 'e GameController \<Rightarrow> exn option \<times> 'e GameController"
where
  "load env file_path fs c =
     (case bindE (persistence_load_game env file_path fs) (load_checks env) of
        Inl e \<Rightarrow> (Some e, c)
      | Inr (gt, state, bsize) \<Rightarrow>
          (case create_engine env gt bsize of
             Inl e \<Rightarrow> (Some e, c)
           | Inr eng \<Rightarrow>
               (case engine_deserialize env state eng of
                  (Some e, eng') \<Rightarrow> (Some e, c\<lparr>engine := Some eng'\<rparr>)
                | (None, eng') \<Rightarrow>
                    (None, c\<lparr>engine := Some eng', game_type := Some gt, board_size := bsize\<rparr>))))"

subsection \<open>Rendering\<close>

definition digit_char :: "nat \<Rightarrow> char" where
  "digit_char d = char_of (48 + d)"

fun str_nat :: "nat \<Rightarrow> string" where
  "str_nat n = (if n < 10 then [digit_char n] else str_nat (n div 10) @ [digit_char (n mod 10)])"

declare str_nat.simps [simp del]

text \<open>\<^verbatim>\<open>str(i)\<close> and the format \<^verbatim>\<open>{i:2d}\<close> (right-aligned in two columns).\<close>

definition str_int :: "int \<Rightarrow> string" where
  "str_int i = (if i < 0 then CHR ''-'' # str_nat (nat (- i)) else str_nat (nat i))"

definition fmt_2d :: "int \<Rightarrow> string" where
  "fmt_2d i = replicate (2 - length (str_int i)) CHR '' '' @ str_int i"

fun join :: "string \<Rightarrow> string list \<Rightarrow> string" where
  "join sep [] = []"
| "join sep [x] = x"
| "join sep (x # y # ys) = x @ sep @ join sep (y # ys)"

definition cell_token :: "PlayerColor option \<Rightarrow> string" where
  "cell_token cell = (case cell of None \<Rightarrow> ''.'' | Some k \<Rightarrow> if k = BLACK then ''X'' else ''O'')"

definition board_row :: "('e, 'f) env \<Rightarrow> 'e \<Rightarrow> int \<Rightarrow> exn + string" where
  "board_row env eng row =
     bindE (traverse (\<lambda>col. board_get env eng (Position row col)) [0..board_size_of env eng - 1])
       (\<lambda>cells. Inr (fmt_2d (row + 1) @ '' | '' @ join ''  '' (map cell_token cells)))"

definition get_board_display :: "('e, 'f) env \<Rightarrow> 'e GameController \<Rightarrow> exn + string" where
  "get_board_display env c =
     bindE (require_engine c) (\<lambda>eng.
       bindE (traverse (board_row env eng) [0..board_size_of env eng - 1]) (\<lambda>rows.
         Inr (join [char_of (10::nat)]
               ((''    '' @ join '' '' (map fmt_2d [1..board_size_of env eng])) # rows))))"

record resources =
  stones_on_board :: int
  stones_remaining :: int
  undo_remaining :: int

definition get_resource_snapshot ::
  "('e, 'f) env \<Rightarrow> 'e GameController \<Rightarrow> exn + (PlayerColor \<Rightarrow> resources)"
where
  "get_resource_snapshot env c =
     bindE (require_engine c) (\<lambda>eng.
       Inr (\<lambda>color. \<lparr>stones_on_board = engine_stones_on_board env eng color,
                     stones_remaining = engine_stones_remaining env eng color,
                     undo_remaining = engine_undo_remaining env eng color\<rparr>))"

text \<open>\<^verbatim>\<open>get_status\<close> joins its parts with \<^verbatim>\<open>" | "\<close>. The parts are Chinese texts
  around the values; a part is kept here as the values it shows.\<close>

datatype game_label = Gomoku_label | Go_label | Unknown_label

datatype color_label = Black_label | White_label

datatype status_part =
    Game_part game_label json json
  | Turn_part color_label
  | Resource_part color_label resources
  | Draw_part
  | Winner_part color_label
  | Reason_part string

definition game_type_label :: "'e GameController \<Rightarrow> game_label" where
  "game_type_label c =
     (if game_type c = Some GOMOKU then Gomoku_label
      else if game_type c = Some GO then Go_label
      else Unknown_label)"

definition color_label :: "PlayerColor option \<Rightarrow> color_label" where
  "color_label color = (if color = Some BLACK then Black_label else White_label)"

definition format_resource_line :: "PlayerColor \<Rightarrow> (PlayerColor \<Rightarrow> resources) \<Rightarrow> status_part" where
  "format_resource_line color snapshot = Resource_part (color_label (Some color)) (snapshot color)"

definition get_status :: "('e, 'f) env \<Rightarrow> 'e GameController \<Rightarrow> exn + status_part list" where
  "get_status env c =
     bindE (require_engine c) (\<lambda>eng.
     bindE (get_resource_snapshot env c) (\<lambda>snapshot.
       (let status_parts =
          [Game_part (game_type_label c) (board_size c) (board_size c),
           Turn_part (color_label (Some (engine_current_player env eng))),
           format_resource_line BLACK snapshot,
           format_resource_line WHITE snapshot]
        in if engine_is_finished env eng
           then bindE (engine_get_result env eng) (\<lambda>result.
                  Inr (status_parts @
                       [if winner result = None then Draw_part
                        else Winner_part (color_label (winner result)),
                        Reason_part (reason result)]))
           else Inr status_parts)))"

section \<open>ui/cli.py\<close>

subsection \<open>The built-in \<^verbatim>\<open>int\<close> on a string\<close>

text \<open>
  \<^verbatim>\<open>int(s)\<close> in base ten, on ASCII text: white space around the number is dropped
  (the characters 9 to 13 and the blank), one sign may lead, and single underscores may
  stand between digits. A number of more than 4300 digits is refused: that is the
  default of the interpreter's limit, which the program does not change. Anything that
  is not read is a ValueError, here \<open>None\<close>. On text that is not ASCII \<^verbatim>\<open>int\<close> also
  reads the other decimal digits and spaces of Unicode; they are not modelled, and the
  statements below that take any text assume \<open>ascii_text\<close>.
\<close>

definition ascii_text :: "string \<Rightarrow> bool" where
  "ascii_text s = list_all (\<lambda>c. (of_char c :: nat) < 128) s"

definition is_space :: "char \<Rightarrow> bool" where
  "is_space c = ((9 \<le> (of_char c :: nat) \<and> (of_char c :: nat) \<le> 13) \<or> (of_char c :: nat) = 32)"

definition strip :: "string \<Rightarrow> string" where
  "strip s = rev (dropWhile is_space (rev (dropWhile is_space s)))"

definition is_digit :: "char \<Rightarrow> bool" where
  "is_digit c = (48 \<le> (of_char c :: nat) \<and> (of_char c :: nat) \<le> 57)"

definition digit_val :: "char \<Rightarrow> nat" where
  "digit_val c = of_char c - 48"

fun parse_digits :: "nat \<Rightarrow> string \<Rightarrow> nat option" where
  "parse_digits acc [] = Some acc"
| "parse_digits acc [c] = (if is_digit c then Some (10 * acc + digit_val c) else None)"
| "parse_digits acc (c # d # ds) =
     (if is_digit c then parse_digits (10 * acc + digit_val c) (d # ds)
      else if c = CHR ''_'' \<and> is_digit d then parse_digits (10 * acc + digit_val d) ds
      else None)"

definition parse_unsigned :: "string \<Rightarrow> nat option" where
  "parse_unsigned u =
     (case u of
        [] \<Rightarrow> None
      | d # ds \<Rightarrow> if is_digit d then parse_digits (digit_val d) ds else None)"

definition max_str_digits :: nat where
  "max_str_digits = 4300"

definition py_int :: "string \<Rightarrow> int option" where
  "py_int s =
     (if max_str_digits < length (filter is_digit (strip s)) then None
      else
        (case strip s of
           [] \<Rightarrow> None
         | c # r \<Rightarrow>
             if c = CHR ''-'' then map_option (\<lambda>n. - int n) (parse_unsigned r)
             else if c = CHR ''+'' then map_option int (parse_unsigned r)
             else map_option int (parse_unsigned (c # r))))"

subsection \<open>The console client\<close>

record 'e ConsoleClient =
  controller :: "'e GameController"
  running :: bool
  show_prompts :: bool
  printed :: "string list"

definition cmd_board ::
  "('e, 'f) env \<Rightarrow> 'e ConsoleClient \<Rightarrow> exn option \<times> 'e ConsoleClient"
where
  "cmd_board env cl =
     (case get_board_display env (controller cl) of
        Inl e \<Rightarrow> (Some e, cl)
      | Inr text \<Rightarrow> (None, cl\<lparr>printed := printed cl @ [text]\<rparr>))"

text \<open>\<^verbatim>\<open>_cmd_start\<close> raises a ValueError of \<^verbatim>\<open>game_type_from_string\<close> again with
  the same text; any other exception passes through as it is.\<close>

definition cmd_start ::
  "('e, 'f) env \<Rightarrow> string list \<Rightarrow> 'e ConsoleClient \<Rightarrow> exn option \<times> 'e ConsoleClient"
where
  "cmd_start env args cl =
     (case args of
        [a0, a1] \<Rightarrow>
          (case game_type_from_string env a0 of
             Inl e \<Rightarrow> (Some e, cl)
           | Inr gt \<Rightarrow>
               (case py_int a1 of
                  None \<Rightarrow> (Some (ValueError (Text ''Board size must be an integer'')), cl)
                | Some n \<Rightarrow>
                    if n < 8 \<or> n > 19
                    then (Some (ValueError (Text ''Board size must be between 8 and 19'')), cl)
                    else
                      (case start_game env gt (JInt n) (controller cl) of
                         (Some e, c') \<Rightarrow> (Some e, cl\<lparr>controller := c'\<rparr>)
                       | (None, c') \<Rightarrow>
                           cmd_board env
                             (cl\<lparr>controller := c',
                                 printed := printed cl @
                                   [''Started '' @ GameType_value env gt @ '' on a '' @
                                    str_int n @ ''x'' @ str_int n @ '' board.'']\<rparr>))))
      | _ \<Rightarrow> (Some (ValueError (Text ''Usage: start <gomoku|go> <size>'')), cl))"

definition parse_coordinate :: "string \<Rightarrow> exn + int" where
  "parse_coordinate v =
     (case py_int v of
        None \<Rightarrow> Inl (ValueError (Text ''Coordinates must be integers''))
      | Some coordinate \<Rightarrow>
          if coordinate \<le> 0 then Inl (ValueError (Text ''Coordinates must be positive''))
          else Inr coordinate)"

definition cmd_move ::
  "('e, 'f) env \<Rightarrow> string list \<Rightarrow> 'e ConsoleClient \<Rightarrow> exn option \<times> 'e ConsoleClient"
where
  "cmd_move env args cl =
     (case args of
        [a0, a1] \<Rightarrow>
          (case parse_coordinate a0 of
             Inl e \<Rightarrow> (Some e, cl)
           | Inr row \<Rightarrow>
               (case parse_coordinate a1 of
                  Inl e \<Rightarrow> (Some e, cl)
                | Inr col \<Rightarrow>
                    (case place_stone env (row - 1) (col - 1) (controller cl) of
                       (Some e, c') \<Rightarrow> (Some e, cl\<lparr>controller := c'\<rparr>)
                     | (None, c') \<Rightarrow> cmd_board env (cl\<lparr>controller := c'\<rparr>))))
      | _ \<Rightarrow> (Some (ValueError (Text ''Usage: move <row> <col>'')), cl))"

section \<open>ui/gui.py\<close>

text \<open>
  The window as far as the handlers of the claims read and write it: the controller, the
  two entry variables, whether \<^verbatim>\<open>_board_area\<close> is set, and the dialogs shown. The
  drawing routine \<^verbatim>\<open>_refresh_board\<close> works on the Tk canvas in floating point; it is a
  parameter \<open>refresh\<close> that returns the window redrawn, or as it was when it raised.
\<close>

datatype dialog =
    Error_dialog exn
  | Unknown_error_dialog exn
  | Start_before_placing    \<comment> \<open>gui.py, line 210\<close>

record 'e GuiApp =
  gui_controller :: "'e GameController"
  game_type_var :: string
  board_size_var :: string
  board_area :: bool
  result_notified :: bool
  dialogs :: "dialog list"

text \<open>The keys of \<^verbatim>\<open>game_type_options\<close>, as their UTF-8 bytes.\<close>

definition gomoku_key :: string where
  "gomoku_key = map char_of [0xE4, 0xBA, 0x94, 0xE5, 0xAD, 0x90, 0xE6, 0xA3, 0x8B :: nat]"

definition go_key :: string where
  "go_key = map char_of [0xE5, 0x9B, 0xB4, 0xE6, 0xA3, 0x8B :: nat]"

definition game_type_options :: "(string \<times> string) list" where
  "game_type_options = [(gomoku_key, ''gomoku''), (go_key, ''go'')]"

definition handle_error :: "exn \<Rightarrow> 'e GuiApp \<Rightarrow> 'e GuiApp" where
  "handle_error error g =
     g\<lparr>dialogs := dialogs g @
         [case error of
            ValueError m \<Rightarrow> Error_dialog error
          | IOError m \<Rightarrow> Error_dialog error
          | _ \<Rightarrow> Unknown_error_dialog error]\<rparr>"

definition read_board_size :: "'e GuiApp \<Rightarrow> exn + int" where
  "read_board_size g =
     (case py_int (board_size_var g) of
        None \<Rightarrow> Inl (ValueError Size_not_integer)
      | Some n \<Rightarrow>
          if n < 8 \<or> n > 19 then Inl (ValueError Size_out_of_range) else Inr n)"

definition gui_start_game ::
  "('e, 'f) env \<Rightarrow> ('e GuiApp \<Rightarrow> exn option \<times> 'e GuiApp) \<Rightarrow> 'e GuiApp \<Rightarrow> 'e GuiApp"
where
  "gui_start_game env refresh g =
     (case game_type_from_string env
             (case map_of game_type_options (game_type_var g) of
                None \<Rightarrow> game_type_var g
              | Some internal_type \<Rightarrow> internal_type) of
        Inl e \<Rightarrow> handle_error e g
      | Inr gt \<Rightarrow>
          (case read_board_size g of
             Inl e \<Rightarrow> handle_error e g
           | Inr n \<Rightarrow>
               (case start_game env gt (JInt n) (gui_controller g) of
                  (Some e, c') \<Rightarrow> handle_error e (g\<lparr>gui_controller := c'\<rparr>)
                | (None, c') \<Rightarrow>
                    (case refresh (g\<lparr>gui_controller := c', result_notified := False\<rparr>) of
                       (Some e, g') \<Rightarrow> handle_error e g'
                     | (None, g') \<Rightarrow> g'))))"

text \<open>
  A click, after the floating-point arithmetic of lines 214 to 221: whether it fell
  inside the board area, and the row and column it was rounded to.
\<close>

record click =
  in_area :: bool
  click_row :: int
  click_col :: int

text \<open>\<^verbatim>\<open>0 <= x < size\<close>, where \<^verbatim>\<open>size\<close> is the controller's \<^verbatim>\<open>board_size\<close>: the
  second comparison is made only if the first holds, and raises a TypeError when the
  size is not a number.\<close>

definition below_size :: "int \<Rightarrow> json \<Rightarrow> exn + bool" where
  "below_size x bsize =
     (if 0 \<le> x then
        (case bsize of
           JInt n \<Rightarrow> Inr (x < n)
         | JBool b \<Rightarrow> Inr (x < (if b then 1 else 0))
         | _ \<Rightarrow> Inl TypeError)
      else Inr False)"

definition on_canvas_click ::
  "('e, 'f) env \<Rightarrow> ('e GuiApp \<Rightarrow> exn option \<times> 'e GuiApp) \<Rightarrow> click \<Rightarrow> 'e GuiApp
     \<Rightarrow> exn option \<times> 'e GuiApp"
where
  "on_canvas_click env refresh event g =
     (if engine (gui_controller g) = None
      then (None, g\<lparr>dialogs := dialogs g @ [Start_before_placing]\<rparr>)
      else if \<not> board_area g then (None, g)
      else if \<not> in_area event then (None, g)
      else
        (case bindE (below_size (click_col event) (board_size (gui_controller g)))
                (\<lambda>col_ok. if col_ok
                           then below_size (click_row event) (board_size (gui_controller g))
                           else Inr False) of
           Inl e \<Rightarrow> (Some e, g)
         | Inr False \<Rightarrow> (None, g)
         | Inr True \<Rightarrow>
             (case place_stone env (click_row event) (click_col event) (gui_controller g) of
                (Some e, c') \<Rightarrow> (None, handle_error e (g\<lparr>gui_controller := c'\<rparr>))
              | (None, c') \<Rightarrow>
                  (case refresh (g\<lparr>gui_controller := c'\<rparr>) of
                     (Some e, g') \<Rightarrow> (None, handle_error e g')
                   | (None, g') \<Rightarrow> (None, g')))))"

section \<open>The rule engine of the spec\<close>

text \<open>
  Modelled from the spec: the engines \<^verbatim>\<open>GomokuEngine\<close> and \<^verbatim>\<open>GoEngine\<close>
  (\<^verbatim>\<open>games/gomoku.py\<close>, \<^verbatim>\<open>games/go.py\<close>) and the board, ledger and history they share
  (\<^verbatim>\<open>core/models.py\<close>) are missing from the sources. This section follows sections 3
  and 4 of the spec: the data model, the shared contract, and the two variants.
\<close>

subsection \<open>Data model\<close>

datatype illegal = Suicide | Ko_violation | No_stones_left

datatype spec_error =
    NotYourTurn
  | OccupiedCell
  | OutOfBounds
  | GameFinished
  | IllegalMove illegal
  | UnsupportedOperation
  | NoMovesToUndo
  | UndoExhausted
  | GameNotFinished
  | UnknownGameType
  | CorruptSave

datatype cause = Five_in_a_row | Resignation | Two_consecutive_passes_scored | Board_full_draw

datatype status = InProgress | Finished "PlayerColor option" cause

definition opposite :: "PlayerColor \<Rightarrow> PlayerColor" where
  "opposite k = (case k of BLACK \<Rightarrow> WHITE | WHITE \<Rightarrow> BLACK)"

text \<open>Modelled from the spec: the board, a \<open>size \<times> size\<close> grid of optional colours,
  kept flat, row after row.\<close>

record Board =
  bsize :: nat
  cells :: "PlayerColor option list"

definition in_bounds :: "Board \<Rightarrow> Position \<Rightarrow> bool" where
  "in_bounds b p =
     (case p of Position r c \<Rightarrow> 0 \<le> r \<and> r < int (bsize b) \<and> 0 \<le> c \<and> c < int (bsize b))"

definition index_of :: "Board \<Rightarrow> Position \<Rightarrow> nat" where
  "index_of b p = (case p of Position r c \<Rightarrow> nat r * bsize b + nat c)"

text \<open>The colour at a position inside the board; \<open>None\<close> is an empty cell.\<close>

definition cell :: "Board \<Rightarrow> Position \<Rightarrow> PlayerColor option" where
  "cell b p = (if index_of b p < length (cells b) then cells b ! index_of b p else None)"

definition Board_get :: "Board \<Rightarrow> Position \<Rightarrow> spec_error + PlayerColor option" where
  "Board_get b p = (if in_bounds b p then Inr (cell b p) else Inl OutOfBounds)"

definition Board_set :: "Board \<Rightarrow> Position \<Rightarrow> PlayerColor option \<Rightarrow> Board" where
  "Board_set b p v = b\<lparr>cells := (cells b)[index_of b p := v]\<rparr>"

definition Board_is_full :: "Board \<Rightarrow> bool" where
  "Board_is_full b = (None \<notin> set (cells b))"

definition empty_board :: "nat \<Rightarrow> Board" where
  "empty_board n = \<lparr>bsize = n, cells = replicate (n * n) None\<rparr>"

text \<open>Modelled from the spec: the resource ledger, two counters for each colour.\<close>

record per_color =
  of_black :: nat
  of_white :: nat

definition pc_get :: "PlayerColor \<Rightarrow> per_color \<Rightarrow> nat" where
  "pc_get k c = (case k of BLACK \<Rightarrow> of_black c | WHITE \<Rightarrow> of_white c)"

definition pc_put :: "PlayerColor \<Rightarrow> nat \<Rightarrow> per_color \<Rightarrow> per_color" where
  "pc_put k v c = (case k of BLACK \<Rightarrow> c\<lparr>of_black := v\<rparr> | WHITE \<Rightarrow> c\<lparr>of_white := v\<rparr>)"

record ResourceLedger =
  stones :: per_color
  undos :: per_color

text \<open>
  Modelled from the spec: a history entry holds what reverses it. A placement holds the
  position, the captured positions with their colours, the ko marker, the count of
  consecutive passes and the player before the move. The newest entry is the head of the
  list.
\<close>

datatype action =
    Placed Position "(Position \<times> PlayerColor) list" "Position option" nat PlayerColor
  | Passed "Position option" nat PlayerColor
  | Resigned PlayerColor

record EngineState =
  variant :: GameType
  current_player :: PlayerColor
  board :: Board
  ledger :: ResourceLedger
  history :: "action list"
  status :: status
  pass_count :: nat
  ko_marker :: "Position option"

subsection \<open>Groups and liberties\<close>

definition neighbours :: "Board \<Rightarrow> Position \<Rightarrow> Position list" where
  "neighbours b p =
     (case p of Position r c \<Rightarrow>
        filter (in_bounds b)
          [Position (r - 1) c, Position (r + 1) c, Position r (c - 1), Position r (c + 1)])"

text \<open>Flood fill over connected cells of one content \<open>k\<close> (a colour, or \<open>None\<close> for an
  empty region). Each step takes a position off the work list, so the fuel given by
  \<open>fill_fuel\<close> is never used up on a board.\<close>

fun flood ::
  "nat \<Rightarrow> Board \<Rightarrow> PlayerColor option \<Rightarrow> Position list \<Rightarrow> Position list \<Rightarrow> Position list"
where
  "flood 0 b k todo seen = seen"
| "flood (Suc n) b k [] seen = seen"
| "flood (Suc n) b k (p # todo) seen =
     (if p \<in> set seen \<or> cell b p \<noteq> k then flood n b k todo seen
      else flood n b k (neighbours b p @ todo) (p # seen))"

definition fill_fuel :: "Board \<Rightarrow> nat" where
  "fill_fuel b = 5 * (bsize b * bsize b) + 1"

definition group_at :: "Board \<Rightarrow> Position \<Rightarrow> Position list" where
  "group_at b p = flood (fill_fuel b) b (cell b p) [p] []"

definition liberties :: "Board \<Rightarrow> Position list \<Rightarrow> Position list" where
  "liberties b g = remdups (filter (\<lambda>q. cell b q = None) (concat (map (neighbours b) g)))"

subsection \<open>Placing a stone\<close>

text \<open>The captured stones of a move, each with the colour it had on the board.\<close>

definition with_colours :: "Board \<Rightarrow> Position list \<Rightarrow> (Position \<times> PlayerColor) list" where
  "with_colours b ps = List.map_filter (\<lambda>q. map_option (Pair q) (cell b q)) ps"

definition remove_stones :: "(Position \<times> PlayerColor) list \<Rightarrow> Board \<Rightarrow> Board" where
  "remove_stones caps b = fold (\<lambda>qk b'. Board_set b' (fst qk) None) caps b"

definition restore_stones :: "(Position \<times> PlayerColor) list \<Rightarrow> Board \<Rightarrow> Board" where
  "restore_stones caps b = fold (\<lambda>qk b'. Board_set b' (fst qk) (Some (snd qk))) caps b"

text \<open>Gomoku: the stones of colour \<open>k\<close> in a row from \<open>p\<close> in direction \<open>(dr, dc)\<close>,
  \<open>p\<close> itself not counted.\<close>

fun run_length :: "nat \<Rightarrow> Board \<Rightarrow> PlayerColor \<Rightarrow> Position \<Rightarrow> int \<times> int \<Rightarrow> nat" where
  "run_length 0 b k p d = 0"
| "run_length (Suc n) b k (Position r c) (dr, dc) =
     (if in_bounds b (Position (r + dr) (c + dc)) \<and> cell b (Position (r + dr) (c + dc)) = Some k
      then Suc (run_length n b k (Position (r + dr) (c + dc)) (dr, dc))
      else 0)"

definition line_through :: "Board \<Rightarrow> PlayerColor \<Rightarrow> Position \<Rightarrow> int \<times> int \<Rightarrow> nat" where
  "line_through b k p d =
     run_length (bsize b) b k p d + 1 + run_length (bsize b) b k p (- fst d, - snd d)"

definition five_in_a_row :: "Board \<Rightarrow> PlayerColor \<Rightarrow> Position \<Rightarrow> bool" where
  "five_in_a_row b k p = (\<exists>d \<in> set [(0, 1), (1, 0), (1, 1), (1, - 1)]. 5 \<le> line_through b k p d)"

definition gomoku_status :: "Board \<Rightarrow> PlayerColor \<Rightarrow> Position \<Rightarrow> status" where
  "gomoku_status b k p =
     (if five_in_a_row b k p then Finished (Some k) Five_in_a_row
      else if Board_is_full b then Finished None Board_full_draw
      else InProgress)"

text \<open>Go: the opposing groups next to the new stone that are left without a liberty.\<close>

definition dead_neighbours :: "Board \<Rightarrow> PlayerColor \<Rightarrow> Position \<Rightarrow> Position list" where
  "dead_neighbours b k p =
     remdups (concat (map (\<lambda>q. if cell b q = Some (opposite k) \<and> liberties b (group_at b q) = []
                                 then group_at b q else [])
                          (neighbours b p)))"

definition next_ko ::
  "Board \<Rightarrow> Position \<Rightarrow> (Position \<times> PlayerColor) list \<Rightarrow> Position option"
where
  "next_ko b p caps =
     (case caps of
        [qk] \<Rightarrow> if group_at b p = [p] \<and> liberties b [p] = [fst qk] then Some (fst qk) else None
      | _ \<Rightarrow> None)"

text \<open>The checks every variant shares come first; a move that fails one leaves the
  state as it was.\<close>

definition commit_move ::
  "EngineState \<Rightarrow> Position \<Rightarrow> (Position \<times> PlayerColor) list \<Rightarrow> Board \<Rightarrow> Position option
     \<Rightarrow> status \<Rightarrow> EngineState"
where
  "commit_move s p caps b ko st =
     s\<lparr>board := b,
       ledger := (ledger s)\<lparr>stones :=
         pc_put (current_player s) (pc_get (current_player s) (stones (ledger s)) - 1)
           (stones (ledger s))\<rparr>,
       history := Placed p caps (ko_marker s) (pass_count s) (current_player s) # history s,
       current_player := opposite (current_player s),
       status := st,
       pass_count := 0,
       ko_marker := ko\<rparr>"

definition play_move :: "Position \<Rightarrow> EngineState \<Rightarrow> spec_error + EngineState" where
  "play_move p s =
     (if status s \<noteq> InProgress then Inl GameFinished
      else if \<not> in_bounds (board s) p then Inl OutOfBounds
      else if cell (board s) p \<noteq> None then Inl OccupiedCell
      else if pc_get (current_player s) (stones (ledger s)) = 0 then Inl (IllegalMove No_stones_left)
      else
        (let k = current_player s; b1 = Board_set (board s) p (Some k) in
         case variant s of
           GOMOKU \<Rightarrow> Inr (commit_move s p [] b1 None (gomoku_status b1 k p))
         | GO \<Rightarrow>
             if ko_marker s = Some p then Inl (IllegalMove Ko_violation)
             else
               (let caps = with_colours b1 (dead_neighbours b1 k p);
                    b2 = remove_stones caps b1
                in if liberties b2 (group_at b2 p) = [] \<and> caps = [] then Inl (IllegalMove Suicide)
                   else Inr (commit_move s p caps b2 (next_ko b2 p caps) InProgress))))"

subsection \<open>Undo, resignation, restart\<close>

definition undo_entry :: "action \<Rightarrow> PlayerColor option" where
  "undo_entry a =
     (case a of
        Placed p caps ko n k \<Rightarrow> Some k
      | Passed ko n k \<Rightarrow> Some k
      | Resigned k \<Rightarrow> None)"

definition spend_undo :: "PlayerColor \<Rightarrow> ResourceLedger \<Rightarrow> ResourceLedger" where
  "spend_undo k l = l\<lparr>undos := pc_put k (pc_get k (undos l) - 1) (undos l)\<rparr>"

definition undo_move :: "EngineState \<Rightarrow> spec_error + EngineState" where
  "undo_move s =
     (if status s \<noteq> InProgress then Inl GameFinished
      else
        (case history s of
           [] \<Rightarrow> Inl NoMovesToUndo
         | a # rest \<Rightarrow>
             (case a of
                Resigned k \<Rightarrow> Inl GameFinished
              | Passed ko n k \<Rightarrow>
                  if pc_get k (undos (ledger s)) = 0 then Inl UndoExhausted
                  else Inr (s\<lparr>history := rest, current_player := k, ko_marker := ko,
                             pass_count := n, ledger := spend_undo k (ledger s)\<rparr>)
              | Placed p caps ko n k \<Rightarrow>
                  if pc_get k (undos (ledger s)) = 0 then Inl UndoExhausted
                  else Inr (s\<lparr>history := rest, current_player := k, ko_marker := ko,
                             pass_count := n,
                             board := Board_set (restore_stones caps (board s)) p None,
                             ledger := spend_undo k
                               ((ledger s)\<lparr>stones :=
                                  pc_put k (pc_get k (stones (ledger s)) + 1)
                                    (stones (ledger s))\<rparr>)\<rparr>))))"

definition resign_game :: "PlayerColor \<Rightarrow> EngineState \<Rightarrow> spec_error + EngineState" where
  "resign_game k s =
     (if status s \<noteq> InProgress then Inl GameFinished
      else Inr (s\<lparr>status := Finished (Some (opposite k)) Resignation,
                 history := Resigned k # history s\<rparr>))"

subsection \<open>Passing and scoring\<close>

definition all_positions :: "Board \<Rightarrow> Position list" where
  "all_positions b =
     concat (map (\<lambda>r. map (\<lambda>c. Position (int r) (int c)) [0..<bsize b]) [0..<bsize b])"

definition stones_on :: "Board \<Rightarrow> PlayerColor \<Rightarrow> nat" where
  "stones_on b k = length (filter (\<lambda>v. v = Some k) (cells b))"

text \<open>The colours of the stones that border an empty region.\<close>

definition borders :: "Board \<Rightarrow> Position list \<Rightarrow> PlayerColor list" where
  "borders b region =
     remdups (List.map_filter (cell b) (concat (map (neighbours b) region)))"

definition territory :: "Board \<Rightarrow> PlayerColor \<Rightarrow> nat" where
  "territory b k =
     length (filter (\<lambda>p. cell b p = None \<and> borders b (flood (fill_fuel b) b None [p] []) = [k])
                    (all_positions b))"

definition area_score :: "Board \<Rightarrow> PlayerColor \<Rightarrow> nat" where
  "area_score b k = stones_on b k + territory b k"

definition scored_result :: "Board \<Rightarrow> status" where
  "scored_result b =
     Finished
       (if area_score b WHITE < area_score b BLACK then Some BLACK
        else if area_score b BLACK < area_score b WHITE then Some WHITE
        else None)
       Two_consecutive_passes_scored"

definition pass_move :: "EngineState \<Rightarrow> spec_error + EngineState" where
  "pass_move s =
     (if variant s \<noteq> GO then Inl UnsupportedOperation
      else if status s \<noteq> InProgress then Inl GameFinished
      else Inr (s\<lparr>history := Passed (ko_marker s) (pass_count s) (current_player s) # history s,
                 current_player := opposite (current_player s),
                 ko_marker := None,
                 pass_count := pass_count s + 1,
                 status := (if 2 \<le> pass_count s + 1 then scored_result (board s) else InProgress)\<rparr>))"

text \<open>Modelled from the spec: a move of a player is a placement or, in Go, a pass.\<close>

datatype move = Place Position | Pass

definition apply_move :: "move \<Rightarrow> EngineState \<Rightarrow> spec_error + EngineState" where
  "apply_move m s = (case m of Place p \<Rightarrow> play_move p s | Pass \<Rightarrow> pass_move s)"

subsection \<open>Creation and restart\<close>

text \<open>The spec leaves the initial allotment of stones and undos to each variant; it is
  a parameter here, by variant and board size.\<close>

record allotment =
  initial_stones :: "GameType \<Rightarrow> nat \<Rightarrow> nat"
  initial_undos :: "GameType \<Rightarrow> nat \<Rightarrow> nat"

definition new_engine :: "allotment \<Rightarrow> GameType \<Rightarrow> nat \<Rightarrow> EngineState" where
  "new_engine cfg v n =
     \<lparr>variant = v, current_player = BLACK, board = empty_board n,
      ledger = \<lparr>stones = \<lparr>of_black = initial_stones cfg v n, of_white = initial_stones cfg v n\<rparr>,
                undos = \<lparr>of_black = initial_undos cfg v n, of_white = initial_undos cfg v n\<rparr>\<rparr>,
      history = [], status = InProgress, pass_count = 0, ko_marker = None\<rparr>"

definition restart_game :: "allotment \<Rightarrow> EngineState \<Rightarrow> EngineState" where
  "restart_game cfg s = new_engine cfg (variant s) (bsize (board s))"

subsection \<open>The serialization codec\<close>

text \<open>Modelled from the spec: the record of section 4.5. The controller reads the key
  \<^verbatim>\<open>board_size\<close> of the state; the other key names are not given by the spec. The history
  is not saved: a loaded game starts with an empty history.\<close>

definition variant_tag :: "GameType \<Rightarrow> string" where
  "variant_tag v = (case v of GOMOKU \<Rightarrow> ''gomoku'' | GO \<Rightarrow> ''go'')"

definition colour_json :: "PlayerColor option \<Rightarrow> json" where
  "colour_json v = (case v of None \<Rightarrow> JNull | Some BLACK \<Rightarrow> JStr ''black'' | Some WHITE \<Rightarrow> JStr ''white'')"

definition per_color_json :: "per_color \<Rightarrow> json" where
  "per_color_json c = JObj [(''black'', JInt (int (of_black c))), (''white'', JInt (int (of_white c)))]"

definition cause_tag :: "cause \<Rightarrow> string" where
  "cause_tag r =
     (case r of
        Five_in_a_row \<Rightarrow> ''five-in-a-row''
      | Resignation \<Rightarrow> ''resignation''
      | Two_consecutive_passes_scored \<Rightarrow> ''two-consecutive-passes-scored''
      | Board_full_draw \<Rightarrow> ''board-full-draw'')"

definition status_json :: "status \<Rightarrow> json" where
  "status_json st =
     (case st of
        InProgress \<Rightarrow> JNull
      | Finished w r \<Rightarrow> JObj [(''winner'', colour_json w), (''reason'', JStr (cause_tag r))])"

definition position_json :: "Position option \<Rightarrow> json" where
  "position_json p = (case p of None \<Rightarrow> JNull | Some (Position r c) \<Rightarrow> JList [JInt r, JInt c])"

definition serialize_state :: "EngineState \<Rightarrow> json" where
  "serialize_state s =
     JObj [(''version'', JInt 1),
           (''variant'', JStr (variant_tag (variant s))),
           (''board_size'', JInt (int (bsize (board s)))),
           (''board'', JList (map colour_json (cells (board s)))),
           (''stones'', per_color_json (stones (ledger s))),
           (''undos'', per_color_json (undos (ledger s))),
           (''current_player'', colour_json (Some (current_player s))),
           (''status'', status_json (status s)),
           (''ko'', position_json (ko_marker s)),
           (''passes'', JInt (int (pass_count s)))]"

definition field :: "json \<Rightarrow> string \<Rightarrow> json option" where
  "field v k = (case v of JObj kvs \<Rightarrow> map_of kvs k | _ \<Rightarrow> None)"

definition json_nat :: "json \<Rightarrow> nat option" where
  "json_nat v = (case v of JInt n \<Rightarrow> if 0 \<le> n then Some (nat n) else None | _ \<Rightarrow> None)"

definition json_colour :: "json \<Rightarrow> PlayerColor option option" where
  "json_colour v =
     (if v = JNull then Some None
      else if v = JStr ''black'' then Some (Some BLACK)
      else if v = JStr ''white'' then Some (Some WHITE)
      else None)"

fun json_colours :: "json list \<Rightarrow> PlayerColor option list option" where
  "json_colours [] = Some []"
| "json_colours (v # vs) =
     Option.bind (json_colour v) (\<lambda>k. map_option (Cons k) (json_colours vs))"

definition json_per_color :: "json \<Rightarrow> per_color option" where
  "json_per_color v =
     Option.bind (Option.bind (field v ''black'') json_nat) (\<lambda>b.
     Option.bind (Option.bind (field v ''white'') json_nat) (\<lambda>w.
       Some \<lparr>of_black = b, of_white = w\<rparr>))"

definition json_cause :: "json \<Rightarrow> cause option" where
  "json_cause v =
     (if v = JStr ''five-in-a-row'' then Some Five_in_a_row
      else if v = JStr ''resignation'' then Some Resignation
      else if v = JStr ''two-consecutive-passes-scored'' then Some Two_consecutive_passes_scored
      else if v = JStr ''board-full-draw'' then Some Board_full_draw
      else None)"

definition json_status :: "json \<Rightarrow> status option" where
  "json_status v =
     (if v = JNull then Some InProgress
      else Option.bind (Option.bind (field v ''winner'') json_colour) (\<lambda>w.
           Option.bind (Option.bind (field v ''reason'') json_cause) (\<lambda>r.
             Some (Finished w r))))"

definition json_position :: "json \<Rightarrow> Position option option" where
  "json_position v =
     (case v of
        JNull \<Rightarrow> Some None
      | JList [JInt r, JInt c] \<Rightarrow> Some (Some (Position r c))
      | _ \<Rightarrow> None)"

definition json_cells :: "json \<Rightarrow> PlayerColor option list option" where
  "json_cells v = (case v of JList vs \<Rightarrow> json_colours vs | _ \<Rightarrow> None)"

definition decode_state :: "GameType \<Rightarrow> json \<Rightarrow> EngineState option" where
  "decode_state v blob =
     Option.bind (Option.bind (field blob ''board_size'') json_nat) (\<lambda>n.
     Option.bind (Option.bind (field blob ''board'') json_cells) (\<lambda>cs.
     Option.bind (Option.bind (field blob ''stones'') json_per_color) (\<lambda>st.
     Option.bind (Option.bind (field blob ''undos'') json_per_color) (\<lambda>un.
     Option.bind (Option.bind (field blob ''current_player'') json_colour) (\<lambda>pl.
     Option.bind (Option.bind (field blob ''status'') json_status) (\<lambda>stat.
     Option.bind (Option.bind (field blob ''ko'') json_position) (\<lambda>ko.
     Option.bind (Option.bind (field blob ''passes'') json_nat) (\<lambda>ps.
       (case pl of
          None \<Rightarrow> None
        | Some k \<Rightarrow>
            if length cs = n * n
            then Some \<lparr>variant = v, current_player = k, board = \<lparr>bsize = n, cells = cs\<rparr>,
                       ledger = \<lparr>stones = st, undos = un\<rparr>, history = [], status = stat,
                       pass_count = ps, ko_marker = ko\<rparr>
            else None)))))))))"

definition deserialize_state :: "json \<Rightarrow> EngineState \<Rightarrow> spec_error + EngineState" where
  "deserialize_state blob s =
     (case field blob ''variant'' of
        None \<Rightarrow> Inl CorruptSave
      | Some t \<Rightarrow>
          if t \<noteq> JStr (variant_tag GOMOKU) \<and> t \<noteq> JStr (variant_tag GO) then Inl UnknownGameType
          else if t \<noteq> JStr (variant_tag (variant s)) then Inl CorruptSave
          else (case decode_state (variant s) blob of
                  None \<Rightarrow> Inl CorruptSave
                | Some s' \<Rightarrow> Inr s'))"

subsection \<open>The engine as the controller sees it\<close>

text \<open>Modelled from the spec: a rule violation or an exhausted resource is a ValueError,
  a persistence error an IOError (the two classes the console client reports as errors);
  an operation that fails leaves the engine untouched.\<close>

definition error_name :: "spec_error \<Rightarrow> string" where
  "error_name e =
     (case e of
        NotYourTurn \<Rightarrow> ''NotYourTurn''
      | OccupiedCell \<Rightarrow> ''OccupiedCell''
      | OutOfBounds \<Rightarrow> ''OutOfBounds''
      | GameFinished \<Rightarrow> ''GameFinished''
      | IllegalMove Suicide \<Rightarrow> ''IllegalMove: suicide''
      | IllegalMove Ko_violation \<Rightarrow> ''IllegalMove: ko''
      | IllegalMove No_stones_left \<Rightarrow> ''IllegalMove: no stones left''
      | UnsupportedOperation \<Rightarrow> ''UnsupportedOperation''
      | NoMovesToUndo \<Rightarrow> ''NoMovesToUndo''
      | UndoExhausted \<Rightarrow> ''UndoExhausted''
      | GameNotFinished \<Rightarrow> ''GameNotFinished''
      | UnknownGameType \<Rightarrow> ''UnknownGameType''
      | CorruptSave \<Rightarrow> ''CorruptSave'')"

definition raised :: "spec_error \<Rightarrow> exn" where
  "raised e =
     (if e = UnknownGameType \<or> e = CorruptSave then IOError (Text (error_name e))
      else ValueError (Text (error_name e)))"

definition engine_call :: "(EngineState \<Rightarrow> spec_error + EngineState) \<Rightarrow> EngineState \<Rightarrow> exn option \<times> EngineState" where
  "engine_call f s = (case f s of Inl e \<Rightarrow> (Some (raised e), s) | Inr s' \<Rightarrow> (None, s'))"

definition construct :: "allotment \<Rightarrow> GameType \<Rightarrow> json \<Rightarrow> exn + EngineState" where
  "construct cfg v n =
     (case n of
        JInt i \<Rightarrow> Inr (new_engine cfg v (nat i))
      | _ \<Rightarrow> Inl TypeError)"

definition get_result :: "EngineState \<Rightarrow> exn + GameResult" where
  "get_result s =
     (case status s of
        InProgress \<Rightarrow> Inl (raised GameNotFinished)
      | Finished w r \<Rightarrow> Inr \<lparr>winner = w, reason = cause_tag r\<rparr>)"

definition spec_env :: "allotment \<Rightarrow> (EngineState, (string \<times> json) list) env" where
  "spec_env cfg =
     \<lparr>GameType_value = variant_tag,
      game_type_from_string =
        (\<lambda>t. if t = ''gomoku'' then Inr GOMOKU
              else if t = ''go'' then Inr GO
              else Inl (ValueError (Text ''unknown game type''))),
      GomokuEngine = construct cfg GOMOKU,
      GoEngine = construct cfg GO,
      engine_play_move = (\<lambda>p. engine_call (play_move p)),
      engine_pass_turn = engine_call pass_move,
      engine_undo = engine_call undo_move,
      engine_resign = (\<lambda>k. engine_call (resign_game k)),
      engine_restart = (\<lambda>s. (None, restart_game cfg s)),
      engine_serialize = (\<lambda>s. Inr (serialize_state s)),
      engine_deserialize = (\<lambda>blob. engine_call (deserialize_state blob)),
      engine_current_player = current_player,
      engine_is_finished = (\<lambda>s. status s \<noteq> InProgress),
      engine_get_result = get_result,
      engine_stones_on_board = (\<lambda>s k. int (stones_on (board s) k)),
      engine_stones_remaining = (\<lambda>s k. int (pc_get k (stones (ledger s)))),
      engine_undo_remaining = (\<lambda>s k. int (pc_get k (undos (ledger s)))),
      board_size_of = (\<lambda>s. int (bsize (board s))),
      board_get = (\<lambda>s p. case Board_get (board s) p of
                            Inl e \<Rightarrow> Inl (raised e)
                          | Inr v \<Rightarrow> Inr v),
      persistence_save_game = (\<lambda>path payload fs. (None, (path, payload) # fs)),
      persistence_load_game =
        (\<lambda>path fs. case map_of fs path of
                      None \<Rightarrow> Inl (IOError (Text ''cannot read the file''))
                    | Some payload \<Rightarrow> Inr payload)\<rparr>"

text \<open>An allotment for the examples: a stone for every cell, three undos.\<close>

definition example_allotment :: allotment where
  "example_allotment = \<lparr>initial_stones = (\<lambda>v n. n * n), initial_undos = (\<lambda>v n. 3)\<rparr>"

text \<open>A game of Go where Black captures the white corner stone by playing at row 1,
  column 0, and the state after that capture.\<close>

definition capture_example :: EngineState where
  "capture_example =
     (new_engine example_allotment GO 9)
       \<lparr>board := Board_set (Board_set (empty_board 9) (Position 0 0) (Some WHITE))
                   (Position 0 1) (Some BLACK)\<rparr>"

definition captured_example :: EngineState where
  "captured_example =
     commit_move capture_example (Position 1 0) [(Position 0 0, WHITE)]
       (Board_set (Board_set (board capture_example) (Position 1 0) (Some BLACK))
          (Position 0 0) None)
       None InProgress"

text \<open>A game of Gomoku where Black, to move, has four stones in a row.\<close>

definition four_in_a_row_example :: EngineState where
  "four_in_a_row_example =
     (new_engine example_allotment GOMOKU 8)
       \<lparr>board := fold (\<lambda>(p, k) b. Board_set b p (Some k))
                   [(Position 0 0, BLACK), (Position 1 0, WHITE), (Position 0 1, BLACK),
                    (Position 1 1, WHITE), (Position 0 2, BLACK), (Position 1 2, WHITE),
                    (Position 0 3, BLACK), (Position 1 3, WHITE)]
                   (empty_board 8)\<rparr>"

text \<open>The state after Black completes the row at row 0, column 4.\<close>

definition won_example :: EngineState where
  "won_example =
     commit_move four_in_a_row_example (Position 0 4) []
       (Board_set (board four_in_a_row_example) (Position 0 4) (Some BLACK))
       None (Finished (Some BLACK) Five_in_a_row)"

text \<open>A game of Gomoku where Black, to move, has used up the undos, and the state after
  Black plays at row 3, column 3.\<close>

definition no_undo_example :: EngineState where
  "no_undo_example =
     (new_engine example_allotment GOMOKU 8)
       \<lparr>ledger := \<lparr>stones = \<lparr>of_black = 64, of_white = 64\<rparr>,
                   undos = \<lparr>of_black = 0, of_white = 3\<rparr>\<rparr>\<rparr>"

definition no_undo_moved_example :: EngineState where
  "no_undo_moved_example =
     commit_move no_undo_example (Position 3 3) []
       (Board_set (board no_undo_example) (Position 3 3) (Some BLACK))
       None InProgress"

section \<open>A recording engine\<close>

text \<open>An engine that accepts every call and keeps the positions it was handed.\<close>

definition probe_env :: "(Position list, (string \<times> json) list) env" where
  "probe_env =
     \<lparr>GameType_value = (\<lambda>g. case g of GOMOKU \<Rightarrow> ''gomoku'' | GO \<Rightarrow> ''go''),
      game_type_from_string =
        (\<lambda>s. if s = ''gomoku'' then Inr GOMOKU
              else if s = ''go'' then Inr GO
              else Inl (ValueError (Text ''unknown game type''))),
      GomokuEngine = (\<lambda>n. Inr []),
      GoEngine = (\<lambda>n. Inr []),
      engine_play_move = (\<lambda>p ps. (None, ps @ [p])),
      engine_pass_turn = (\<lambda>ps. (None, ps)),
      engine_undo = (\<lambda>ps. (None, butlast ps)),
      engine_resign = (\<lambda>k ps. (None, ps)),
      engine_restart = (\<lambda>ps. (None, [])),
      engine_serialize = (\<lambda>ps. Inr (JObj [])),
      engine_deserialize = (\<lambda>st ps. (None, ps)),
      engine_current_player = (\<lambda>ps. if even (length ps) then BLACK else WHITE),
      engine_is_finished = (\<lambda>ps. False),
      engine_get_result = (\<lambda>ps. Inl (ValueError (Text ''game not finished''))),
      engine_stones_on_board = (\<lambda>ps k. 0),
      engine_stones_remaining = (\<lambda>ps k. 0),
      engine_undo_remaining = (\<lambda>ps k. 0),
      board_size_of = (\<lambda>ps. 0),
      board_get = (\<lambda>ps p. Inr None),
      persistence_save_game = (\<lambda>path payload fs. (None, (path, payload) # fs)),
      persistence_load_game =
        (\<lambda>path fs. case map_of fs path of
                      None \<Rightarrow> Inl (IOError (Text ''cannot read the file''))
                    | Some payload \<Rightarrow> Inr payload)\<rparr>"

section \<open>Properties of the controller\<close>

lemma require_engine_None: "engine c = None \<Longrightarrow> require_engine c = Inl (ValueError No_running_game)"
  by (simp add: require_engine_def)

lemma on_engine_None: "engine c = None \<Longrightarrow> on_engine m c = (Some (ValueError No_running_game), c)"
  by (simp add: on_engine_def require_engine_def)

text \<open>
  C8: every controller operation that needs an active game (\<^verbatim>\<open>place_stone\<close>,
  \<^verbatim>\<open>pass_turn\<close>, \<^verbatim>\<open>undo\<close>, \<^verbatim>\<open>resign\<close>, \<^verbatim>\<open>restart\<close>, \<^verbatim>\<open>save\<close>,
  \<^verbatim>\<open>get_board_display\<close>, \<^verbatim>\<open>get_status\<close>, \<^verbatim>\<open>get_resource_snapshot\<close>) raises the
  ValueError of \<^verbatim>\<open>_require_engine\<close> when the engine is None, and leaves the controller
  and the files as they were.
\<close>

theorem operations_need_engine:
  assumes "engine c = None"
  shows "place_stone env row col c = (Some (ValueError No_running_game), c)
       \<and> pass_turn env c = (Some (ValueError No_running_game), c)
       \<and> undo env c = (Some (ValueError No_running_game), c)
       \<and> resign env color c = (Some (ValueError No_running_game), c)
       \<and> restart env c = (Some (ValueError No_running_game), c)
       \<and> save env file_path fs c = (Some (ValueError No_running_game), fs)
       \<and> get_board_display env c = Inl (ValueError No_running_game)
       \<and> get_status env c = Inl (ValueError No_running_game)
       \<and> get_resource_snapshot env c = Inl (ValueError No_running_game)"
  using assms
  by (simp add: place_stone_def pass_turn_def undo_def resign_def restart_def save_def
      get_board_display_def get_status_def get_resource_snapshot_def on_engine_None
      require_engine_None bindE_def)

theorem operations_need_engine_witness:
  "engine (init_controller :: Position list GameController) = None
   \<and> place_stone probe_env 0 0 init_controller = (Some (ValueError No_running_game), init_controller)
   \<and> pass_turn probe_env init_controller = (Some (ValueError No_running_game), init_controller)
   \<and> undo probe_env init_controller = (Some (ValueError No_running_game), init_controller)
   \<and> resign probe_env None init_controller = (Some (ValueError No_running_game), init_controller)
   \<and> restart probe_env init_controller = (Some (ValueError No_running_game), init_controller)
   \<and> save probe_env ''game.json'' [] init_controller = (Some (ValueError No_running_game), [])
   \<and> get_board_display probe_env init_controller = Inl (ValueError No_running_game)
   \<and> get_status probe_env init_controller = Inl (ValueError No_running_game)
   \<and> get_resource_snapshot probe_env init_controller = Inl (ValueError No_running_game)"
proof -
  have h: "engine (init_controller :: Position list GameController) = None"
    by (simp add: init_controller_def)
  show ?thesis
    using h operations_need_engine [OF h, of probe_env 0 0 None "''game.json''" "[]"] by simp
qed

text \<open>
  C4: with an engine present, \<^verbatim>\<open>pass_turn\<close> on a Gomoku game (on any game that is not
  Go) raises the ValueError of line 46 and returns the controller untouched, whatever the
  engine is; on a Go game it is the engine's \<^verbatim>\<open>pass_turn\<close>.
\<close>

theorem pass_turn_only_in_go:
  assumes "engine c = Some eng"
  shows "(game_type c = Some GOMOKU \<longrightarrow> pass_turn env c = (Some (ValueError Pass_needs_go), c))
       \<and> (game_type c \<noteq> Some GO \<longrightarrow> pass_turn env c = (Some (ValueError Pass_needs_go), c))
       \<and> (game_type c = Some GO \<longrightarrow>
            pass_turn env c =
              (fst (engine_pass_turn env eng), c\<lparr>engine := Some (snd (engine_pass_turn env eng))\<rparr>))"
  using assms
  by (simp add: pass_turn_def require_engine_def split: prod.splits)

theorem pass_turn_only_in_go_witness:
  "engine \<lparr>engine = Some [], game_type = Some GOMOKU, board_size = JInt 15\<rparr> = Some []
   \<and> pass_turn probe_env \<lparr>engine = Some [], game_type = Some GOMOKU, board_size = JInt 15\<rparr>
       = (Some (ValueError Pass_needs_go),
          \<lparr>engine = Some [], game_type = Some GOMOKU, board_size = JInt 15\<rparr>)"
  using pass_turn_only_in_go
    [of "\<lparr>engine = Some [], game_type = Some GOMOKU, board_size = JInt 15\<rparr>" "[]" probe_env]
  by simp

lemma py_in_JObj: "py_in k (JObj kvs) = Inr (map_of kvs k \<noteq> None)"
  by (simp add: map_of_eq_None_iff)

lemma GameType_of_value_cases:
  "GameType_of_value env v = Inr GOMOKU \<or> GameType_of_value env v = Inr GO
   \<or> GameType_of_value env v = Inl (ValueError (Text ''not a valid GameType''))"
  by (simp add: GameType_of_value_def)

lemma load_checks_JObj:
  "load_checks env (JObj kvs) =
     (case map_of kvs ''game_type'' of
        None \<Rightarrow> Inl (IOError Save_format_incorrect)
      | Some v \<Rightarrow>
          (case map_of kvs ''state'' of
             None \<Rightarrow> Inl (IOError Save_format_incorrect)
           | Some st \<Rightarrow>
               (case GameType_of_value env v of
                  Inl e \<Rightarrow> Inl (IOError (Unknown_saved_game_type v))
                | Inr gt \<Rightarrow>
                    bindE (py_get st ''board_size'') (\<lambda>bsize.
                      if bsize = JNull then Inl (IOError Save_lacks_board_size)
                      else Inr (gt, st, bsize)))))"
  using GameType_of_value_cases [of env "the (map_of kvs ''game_type'')"]
  by (auto simp add: load_checks_def bindE_def py_in_JObj simp del: py_in.simps
      split: option.splits sum.splits)

lemma load_checks_failure:
  assumes "persistence_load_game env file_path fs = Inr payload"
    and "load_checks env payload = Inl e"
  shows "load env file_path fs c = (Some e, c)"
  using assms by (simp add: load_def bindE_def)

text \<open>
  C9: when \<^verbatim>\<open>load\<close> rejects a saved dictionary at one of its format checks (no
  \<^verbatim>\<open>game_type\<close> key, no \<^verbatim>\<open>state\<close> key, a game type that is no member of
  \<^verbatim>\<open>GameType\<close>, or a state dictionary without a board size), it raises an IOError and the
  controller (engine, game type, board size) is exactly as before the call.
\<close>

theorem rejected_load_keeps_controller:
  assumes "persistence_load_game env file_path fs = Inr (JObj kvs)"
    and "map_of kvs ''game_type'' = None
       \<or> map_of kvs ''state'' = None
       \<or> (\<exists>v. map_of kvs ''game_type'' = Some v
              \<and> v \<noteq> JStr (GameType_value env GOMOKU) \<and> v \<noteq> JStr (GameType_value env GO))
       \<or> (\<exists>st. map_of kvs ''state'' = Some (JObj st)
               \<and> (map_of st ''board_size'' = None \<or> map_of st ''board_size'' = Some JNull))"
  shows "\<exists>m. load env file_path fs c = (Some (IOError m), c)"
proof -
  have "\<exists>m. load_checks env (JObj kvs) = Inl (IOError m)"
    using assms(2)
    by (auto simp add: load_checks_JObj GameType_of_value_def bindE_def
        split: option.splits sum.splits)
  then show ?thesis
    using load_checks_failure [OF assms(1)] by blast
qed

text \<open>
  C3: the claim asks for a save-format error (an IOError) for every payload whose state
  has no board size. A state that is not a dictionary (\<^verbatim>\<open>null\<close>, a list) reaches
  \<^verbatim>\<open>state.get\<close> at line 85 and raises an AttributeError; a payload that is \<^verbatim>\<open>null\<close>
  raises a TypeError at line 77.
\<close>

theorem load_non_dictionary_state:
  "load probe_env ''save.json''
        [(''save.json'', JObj [(''game_type'', JStr ''gomoku''), (''state'', JNull)])]
        init_controller
     = (Some AttributeError, init_controller)
   \<and> load probe_env ''save.json''
        [(''save.json'', JObj [(''game_type'', JStr ''gomoku''), (''state'', JList [])])]
        init_controller
     = (Some AttributeError, init_controller)
   \<and> load probe_env ''save.json'' [(''save.json'', JNull)] init_controller
     = (Some TypeError, init_controller)"
  by (simp add: load_def load_checks_def bindE_def probe_env_def GameType_of_value_def)

text \<open>
  The board size of the saved state is handed to \<^verbatim>\<open>create_engine\<close> as it is, and
  adopted by the controller whenever the constructor and \<^verbatim>\<open>deserialize\<close> accept it.
  \<^verbatim>\<open>load\<close> itself compares it with no bound; whether a size outside 8..19 is accepted
  is decided by the constructors of the engines, which are not among the sources.
\<close>

lemma load_passes_saved_size:
  assumes "persistence_load_game env file_path fs = Inr (JObj kvs)"
    and "map_of kvs ''game_type'' = Some v"
    and "GameType_of_value env v = Inr gt"
    and "map_of kvs ''state'' = Some (JObj st)"
    and "map_of st ''board_size'' = Some n"
    and "n \<noteq> JNull"
  shows "load env file_path fs c
           = (case create_engine env gt n of
                Inl e \<Rightarrow> (Some e, c)
              | Inr eng \<Rightarrow>
                  (case engine_deserialize env (JObj st) eng of
                     (Some e, eng') \<Rightarrow> (Some e, c\<lparr>engine := Some eng'\<rparr>)
                   | (None, eng') \<Rightarrow>
                       (None, c\<lparr>engine := Some eng', game_type := Some gt, board_size := n\<rparr>)))"
  using assms by (simp add: load_def load_checks_JObj bindE_def)

theorem rejected_load_keeps_controller_witness:
  "persistence_load_game probe_env ''save.json'' [(''save.json'', JObj [(''game_type'', JStr ''chess'')])]
     = Inr (JObj [(''game_type'', JStr ''chess'')])
   \<and> (\<exists>m. load probe_env ''save.json'' [(''save.json'', JObj [(''game_type'', JStr ''chess'')])]
             \<lparr>engine = Some [Position 3 3], game_type = Some GO, board_size = JInt 9\<rparr>
          = (Some (IOError m),
             \<lparr>engine = Some [Position 3 3], game_type = Some GO, board_size = JInt 9\<rparr>))"
proof -
  have h: "persistence_load_game probe_env ''save.json''
             [(''save.json'', JObj [(''game_type'', JStr ''chess'')])]
           = Inr (JObj [(''game_type'', JStr ''chess'')])"
    by (simp add: probe_env_def)
  show ?thesis
    using h rejected_load_keeps_controller [OF h,
        of "\<lparr>engine = Some [Position 3 3], game_type = Some GO, board_size = JInt 9\<rparr>"]
    by simp
qed

section \<open>Properties of the console client and the window\<close>

subsection \<open>A number printed in decimal is read back by \<^verbatim>\<open>int\<close>\<close>

lemma is_digit_digit_char: "d < 10 \<Longrightarrow> is_digit (digit_char d)"
  by (simp add: is_digit_def digit_char_def)

lemma digit_val_digit_char: "d < 10 \<Longrightarrow> digit_val (digit_char d) = d"
  by (simp add: digit_val_def digit_char_def)

lemma not_space_digit: "is_digit c \<Longrightarrow> \<not> is_space c"
  by (auto simp add: is_digit_def is_space_def)

lemma parse_digits_all:
  "\<forall>c \<in> set ds. is_digit c \<Longrightarrow>
     parse_digits acc ds = Some (foldl (\<lambda>a c. 10 * a + digit_val c) acc ds)"
  by (induction acc ds rule: parse_digits.induct) auto

lemma str_nat_digits: "\<forall>c \<in> set (str_nat n). is_digit c"
proof (induction n rule: str_nat.induct)
  case (1 n)
  then show ?case
    by (subst str_nat.simps) (auto simp add: is_digit_digit_char)
qed

lemma str_nat_nonempty: "str_nat n \<noteq> []"
  by (subst str_nat.simps) simp

lemma str_nat_value: "foldl (\<lambda>a c. 10 * a + digit_val c) 0 (str_nat n) = n"
proof (induction n rule: str_nat.induct)
  case (1 n)
  show ?case
  proof (cases "n < 10")
    case True
    then show ?thesis by (subst str_nat.simps) (simp add: digit_val_digit_char)
  next
    case False
    with 1 show ?thesis
      by (subst str_nat.simps) (simp add: digit_val_digit_char)
  qed
qed

lemma parse_unsigned_str_nat: "parse_unsigned (str_nat n) = Some n"
proof -
  obtain d ds where e: "str_nat n = d # ds"
    using str_nat_nonempty [of n] by (cases "str_nat n") auto
  have dig: "is_digit d" "\<forall>c \<in> set ds. is_digit c"
    using str_nat_digits [of n] e by auto
  have "foldl (\<lambda>a c. 10 * a + digit_val c) (digit_val d) ds = n"
    using str_nat_value [of n] e by simp
  then show ?thesis
    using dig e by (simp add: parse_unsigned_def parse_digits_all)
qed

lemma strip_no_space:
  assumes "s \<noteq> []" "\<not> is_space (hd s)" "\<not> is_space (last s)"
  shows "strip s = s"
proof -
  have a: "dropWhile is_space s = s"
    using assms by (cases s) auto
  have "rev s \<noteq> []" "\<not> is_space (hd (rev s))"
    using assms by (simp_all add: hd_rev)
  then have "dropWhile is_space (rev s) = rev s"
    by (cases "rev s") auto
  then show ?thesis
    by (simp add: strip_def a)
qed

lemma str_nat_ends: "is_digit (hd (str_nat n))" "is_digit (last (str_nat n))"
  using str_nat_digits [of n] str_nat_nonempty [of n] hd_in_set last_in_set by blast+

lemma strip_str_nat: "strip (str_nat n) = str_nat n"
  using str_nat_ends [of n] str_nat_nonempty [of n]
  by (intro strip_no_space) (auto simp add: not_space_digit)

lemma minus_not_space: "\<not> is_space CHR ''-''"
  by (simp add: is_space_def)

lemma strip_minus_str_nat: "strip (CHR ''-'' # str_nat n) = CHR ''-'' # str_nat n"
  using str_nat_ends [of n] str_nat_nonempty [of n]
  by (intro strip_no_space) (auto simp add: not_space_digit minus_not_space)

lemma digit_not_sign: "is_digit c \<Longrightarrow> c \<noteq> CHR ''-'' \<and> c \<noteq> CHR ''+''"
  by (auto simp add: is_digit_def)

lemma filter_digits_str_nat: "filter is_digit (str_nat n) = str_nat n"
  using str_nat_digits [of n] by (simp add: filter_id_conv)

lemma minus_not_digit: "\<not> is_digit CHR ''-''"
  by (simp add: is_digit_def)

lemma py_int_str_int:
  "py_int (str_int i)
     = (if length (str_nat (nat \<bar>i\<bar>)) \<le> max_str_digits then Some i else None)"
proof (cases "i < 0")
  case True
  then have "nat \<bar>i\<bar> = nat (- i)" by simp
  then show ?thesis
    using True
    by (simp add: py_int_def str_int_def strip_minus_str_nat parse_unsigned_str_nat
        filter_digits_str_nat minus_not_digit)
next
  case False
  obtain d ds where e: "str_nat (nat i) = d # ds"
    using str_nat_nonempty [of "nat i"] by (cases "str_nat (nat i)") auto
  have "is_digit d" using str_nat_digits [of "nat i"] e by auto
  then have ns: "d \<noteq> CHR ''-''" "d \<noteq> CHR ''+''" using digit_not_sign by auto
  have p: "parse_unsigned (d # ds) = Some (nat i)"
    using parse_unsigned_str_nat [of "nat i"] e by simp
  have f: "length (filter is_digit (d # ds)) = length (d # ds)"
    using filter_digits_str_nat [of "nat i"] e by simp
  have "nat \<bar>i\<bar> = nat i" using False by simp
  then show ?thesis
    using False e ns p f strip_str_nat [of "nat i"]
    by (simp add: py_int_def str_int_def)
qed

lemma py_int_str_int_short:
  assumes "0 \<le> i" "length (str_int i) \<le> max_str_digits"
  shows "py_int (str_int i) = Some i"
proof -
  have "length (str_int i) = length (str_nat (nat \<bar>i\<bar>))"
    using assms(1) by (simp add: str_int_def)
  then show ?thesis using assms(2) by (simp add: py_int_str_int)
qed

lemma py_int_str_int_long:
  assumes "0 \<le> i" "max_str_digits < length (str_int i)"
  shows "py_int (str_int i) = None"
proof -
  have "length (str_int i) = length (str_nat (nat \<bar>i\<bar>))"
    using assms(1) by (simp add: str_int_def)
  then show ?thesis using assms(2) by (simp add: py_int_str_int)
qed

lemma py_int_str_int_cases: "py_int (str_int i) = Some i \<or> py_int (str_int i) = None"
  by (simp add: py_int_str_int)

text \<open>A power of ten has more digits than its exponent.\<close>

lemma str_nat_long: "10 ^ k \<le> n \<Longrightarrow> k < length (str_nat n)"
proof (induction k arbitrary: n)
  case 0
  then show ?case using str_nat_nonempty [of n] by (cases "str_nat n") simp_all
next
  case (Suc k)
  have "(10::nat) \<le> 10 ^ Suc k" by (rule self_le_power) simp_all
  from this Suc.prems have "10 \<le> n" by (rule order_trans)
  moreover have "10 ^ k \<le> n div 10" using Suc.prems by simp
  ultimately show ?case
    using Suc.IH [of "n div 10"] by (subst str_nat.simps) simp
qed

lemma str_int_power_long: "k < length (str_int (10 ^ k))"
proof -
  have "k < length (str_nat (10 ^ k))"
    by (rule str_nat_long) (rule order_refl)
  then show ?thesis
    by (simp add: str_int_def nat_power_eq)
qed

lemma long_ones: "max_str_digits < n \<Longrightarrow> py_int (replicate n CHR ''1'') = None"
proof -
  assume n: "max_str_digits < n"
  have d: "is_digit CHR ''1''" by (simp add: is_digit_def)
  then have "\<not> is_space CHR ''1''" by (rule not_space_digit)
  then have "strip (replicate n CHR ''1'') = replicate n CHR ''1''"
    by (simp add: strip_def)
  then show ?thesis using n d by (simp add: py_int_def)
qed

lemma str_int_examples:
  "str_int 0 = ''0''" "str_int 3 = ''3''" "str_int 4 = ''4''" "str_int 100 = ''100''"
  by code_simp+

subsection \<open>The move command\<close>

lemma parse_coordinate_ok:
  "py_int a = Some r \<Longrightarrow> 0 < r \<Longrightarrow> parse_coordinate a = Inr r"
  by (simp add: parse_coordinate_def)

lemma parse_coordinate_bad:
  "py_int a = None \<or> (\<exists>n. py_int a = Some n \<and> n \<le> 0) \<Longrightarrow>
     \<exists>m. parse_coordinate a = Inl (ValueError m)"
  by (auto simp add: parse_coordinate_def)

lemma cmd_move_parsed:
  assumes "py_int a0 = Some r" "py_int a1 = Some c" "0 < r" "0 < c"
  shows "cmd_move env [a0, a1] cl =
           (case place_stone env (r - 1) (c - 1) (controller cl) of
              (Some e, c') \<Rightarrow> (Some e, cl\<lparr>controller := c'\<rparr>)
            | (None, c') \<Rightarrow> cmd_board env (cl\<lparr>controller := c'\<rparr>))"
  using assms by (simp add: cmd_move_def parse_coordinate_ok)

lemma cmd_move_rejected:
  assumes "py_int a0 = None \<or> (\<exists>n. py_int a0 = Some n \<and> n \<le> 0)
         \<or> py_int a1 = None \<or> (\<exists>n. py_int a1 = Some n \<and> n \<le> 0)"
  shows "\<exists>m. cmd_move env [a0, a1] cl = (Some (ValueError m), cl)"
proof (cases "parse_coordinate a0")
  case (Inl e)
  then have "\<exists>m. e = ValueError m"
    by (auto simp add: parse_coordinate_def split: option.splits if_splits)
  with Inl show ?thesis by (auto simp add: cmd_move_def)
next
  case (Inr r)
  then have "py_int a0 = Some r \<and> 0 < r"
    by (auto simp add: parse_coordinate_def split: option.splits if_splits)
  with assms have "py_int a1 = None \<or> (\<exists>n. py_int a1 = Some n \<and> n \<le> 0)" by auto
  then obtain m where "parse_coordinate a1 = Inl (ValueError m)"
    using parse_coordinate_bad by blast
  with Inr show ?thesis by (simp add: cmd_move_def)
qed

lemma cmd_move_unread:
  assumes "py_int a0 = None"
  shows "cmd_move env [a0, a1] cl = (Some (ValueError (Text ''Coordinates must be integers'')), cl)"
  using assms by (simp add: cmd_move_def parse_coordinate_def)

text \<open>
  C10: \<^verbatim>\<open>move r c\<close> with positive integers of at most 4300 digits each, written in
  decimal or, in ASCII text, in any other form \<^verbatim>\<open>int\<close> reads, calls
  \<^verbatim>\<open>place_stone(r - 1, c - 1)\<close> and then prints the board. A coordinate in ASCII text
  that \<^verbatim>\<open>int\<close> does not read, or that is not positive, raises a ValueError and leaves
  the client, and so the controller, untouched. A positive row of more than 4300 digits
  is among those \<^verbatim>\<open>int\<close> does not read: the command fails with
  \<^verbatim>\<open>Coordinates must be integers\<close>, whatever the column.
\<close>

theorem cmd_move_one_indexed:
  "(0 < r \<and> 0 < c \<and> length (str_int r) \<le> max_str_digits
      \<and> length (str_int c) \<le> max_str_digits \<longrightarrow>
      cmd_move env [str_int r, str_int c] cl =
        (case place_stone env (r - 1) (c - 1) (controller cl) of
           (Some e, c') \<Rightarrow> (Some e, cl\<lparr>controller := c'\<rparr>)
         | (None, c') \<Rightarrow> cmd_board env (cl\<lparr>controller := c'\<rparr>)))
   \<and> (ascii_text a0 \<and> ascii_text a1 \<and> py_int a0 = Some r \<and> py_int a1 = Some c
        \<and> 0 < r \<and> 0 < c \<longrightarrow>
      cmd_move env [a0, a1] cl =
        (case place_stone env (r - 1) (c - 1) (controller cl) of
           (Some e, c') \<Rightarrow> (Some e, cl\<lparr>controller := c'\<rparr>)
         | (None, c') \<Rightarrow> cmd_board env (cl\<lparr>controller := c'\<rparr>)))
   \<and> (ascii_text a0 \<and> ascii_text a1
        \<and> (py_int a0 = None \<or> (\<exists>n. py_int a0 = Some n \<and> n \<le> 0)
            \<or> py_int a1 = None \<or> (\<exists>n. py_int a1 = Some n \<and> n \<le> 0)) \<longrightarrow>
      (\<exists>m. cmd_move env [a0, a1] cl = (Some (ValueError m), cl)))
   \<and> (0 < r \<and> max_str_digits < length (str_int r) \<longrightarrow>
        cmd_move env [str_int r, a1] cl
          = (Some (ValueError (Text ''Coordinates must be integers'')), cl))"
proof -
  have "cmd_move env [str_int r, str_int c] cl =
          (case place_stone env (r - 1) (c - 1) (controller cl) of
             (Some e, c') \<Rightarrow> (Some e, cl\<lparr>controller := c'\<rparr>)
           | (None, c') \<Rightarrow> cmd_board env (cl\<lparr>controller := c'\<rparr>))"
    if "0 < r" "0 < c" "length (str_int r) \<le> max_str_digits"
      "length (str_int c) \<le> max_str_digits"
    using that cmd_move_parsed [of "str_int r" r "str_int c" c env cl]
    by (simp add: py_int_str_int_short)
  moreover have "cmd_move env [str_int r, a1] cl
          = (Some (ValueError (Text ''Coordinates must be integers'')), cl)"
    if "0 < r" "max_str_digits < length (str_int r)"
    using that cmd_move_unread [of "str_int r" env a1 cl]
    by (simp add: py_int_str_int_long)
  ultimately show ?thesis
    using cmd_move_parsed [of a0 r a1 c env cl] cmd_move_rejected [of a0 a1 env cl]
    by blast
qed

lemma py_int_examples:
  "py_int ''3'' = Some 3" "py_int ''4'' = Some 4" "py_int ''0'' = Some 0"
  "py_int ''x'' = None" "py_int ''100'' = Some 100" "py_int ''5'' = Some 5" "py_int ''25'' = Some 25"
  by (simp_all add: py_int_def max_str_digits_def strip_def is_space_def parse_unsigned_def
      is_digit_def digit_val_def)

theorem cmd_move_one_indexed_witness:
  "cmd_move probe_env [''3'', ''4'']
      \<lparr>controller = \<lparr>engine = Some [], game_type = Some GOMOKU, board_size = JInt 15\<rparr>,
       running = True, show_prompts = True, printed = []\<rparr>
     = (None, \<lparr>controller = \<lparr>engine = Some [Position 2 3], game_type = Some GOMOKU,
                              board_size = JInt 15\<rparr>,
               running = True, show_prompts = True, printed = [''    '']\<rparr>)
   \<and> str_int 3 = ''3'' \<and> str_int 4 = ''4''
   \<and> (\<exists>m. cmd_move probe_env [''0'', ''4'']
             \<lparr>controller = \<lparr>engine = Some [], game_type = Some GOMOKU, board_size = JInt 15\<rparr>,
              running = True, show_prompts = True, printed = []\<rparr>
          = (Some (ValueError m),
             \<lparr>controller = \<lparr>engine = Some [], game_type = Some GOMOKU, board_size = JInt 15\<rparr>,
              running = True, show_prompts = True, printed = []\<rparr>))
   \<and> max_str_digits < length (str_int (10 ^ max_str_digits))
   \<and> cmd_move probe_env [str_int (10 ^ max_str_digits), ''4'']
        \<lparr>controller = \<lparr>engine = Some [], game_type = Some GOMOKU, board_size = JInt 15\<rparr>,
         running = True, show_prompts = True, printed = []\<rparr>
     = (Some (ValueError (Text ''Coordinates must be integers'')),
        \<lparr>controller = \<lparr>engine = Some [], game_type = Some GOMOKU, board_size = JInt 15\<rparr>,
         running = True, show_prompts = True, printed = []\<rparr>)"
  using cmd_move_one_indexed [of 3 4 probe_env
      "\<lparr>controller = \<lparr>engine = Some [], game_type = Some GOMOKU, board_size = JInt 15\<rparr>,
        running = True, show_prompts = True, printed = []\<rparr>" "''3''" "''4''"]
    cmd_move_one_indexed [of 3 4 probe_env
      "\<lparr>controller = \<lparr>engine = Some [], game_type = Some GOMOKU, board_size = JInt 15\<rparr>,
        running = True, show_prompts = True, printed = []\<rparr>" "''0''" "''4''"]
    cmd_move_one_indexed [of "10 ^ max_str_digits" 4 probe_env
      "\<lparr>controller = \<lparr>engine = Some [], game_type = Some GOMOKU, board_size = JInt 15\<rparr>,
        running = True, show_prompts = True, printed = []\<rparr>" "''0''" "''4''"]
    str_int_power_long [of max_str_digits]
  by (simp add: py_int_examples str_int_examples ascii_text_def max_str_digits_def
      place_stone_def on_engine_def require_engine_def probe_env_def
      cmd_board_def get_board_display_def bindE_def del: power_numeral)

text \<open>
  C10 as stated fails for a positive integer of 4301 digits: \<^verbatim>\<open>int\<close> refuses the text,
  the command raises \<^verbatim>\<open>Coordinates must be integers\<close>, and \<^verbatim>\<open>place_stone\<close> is not
  called.
\<close>

theorem long_coordinate_rejected:
  "cmd_move probe_env [replicate 4301 CHR ''1'', ''1'']
      \<lparr>controller = \<lparr>engine = Some [], game_type = Some GOMOKU, board_size = JInt 15\<rparr>,
       running = True, show_prompts = True, printed = []\<rparr>
     = (Some (ValueError (Text ''Coordinates must be integers'')),
        \<lparr>controller = \<lparr>engine = Some [], game_type = Some GOMOKU, board_size = JInt 15\<rparr>,
         running = True, show_prompts = True, printed = []\<rparr>)"
  using long_ones [of 4301]
  by (simp add: cmd_move_def parse_coordinate_def max_str_digits_def)

subsection \<open>Who checks a position\<close>

lemma place_stone_forwards:
  "engine c = Some eng \<Longrightarrow>
     place_stone env row col c =
       (fst (engine_play_move env (Position row col) eng),
        c\<lparr>engine := Some (snd (engine_play_move env (Position row col) eng))\<rparr>)"
  by (simp add: place_stone_def on_engine_def require_engine_def split: prod.splits)

lemma cmd_board_controller: "controller (snd (cmd_board env cl)) = controller cl"
  by (simp add: cmd_board_def split: sum.splits)

lemma cmd_move_hands_position:
  assumes "engine (controller cl) = Some eng" "0 < r" "0 < k"
    and "length (str_int r) \<le> max_str_digits" "length (str_int k) \<le> max_str_digits"
  shows "engine (controller (snd (cmd_move env [str_int r, str_int k] cl)))
           = Some (snd (engine_play_move env (Position (r - 1) (k - 1)) eng))"
proof -
  have "cmd_move env [str_int r, str_int k] cl =
          (case place_stone env (r - 1) (k - 1) (controller cl) of
             (Some e, c') \<Rightarrow> (Some e, cl\<lparr>controller := c'\<rparr>)
           | (None, c') \<Rightarrow> cmd_board env (cl\<lparr>controller := c'\<rparr>))"
    using assms cmd_move_parsed [of "str_int r" r "str_int k" k env cl]
    by (simp add: py_int_str_int_short)
  then show ?thesis
    using place_stone_forwards [OF assms(1), of env "r - 1" "k - 1"]
    by (cases "fst (engine_play_move env (Position (r - 1) (k - 1)) eng)")
       (simp_all add: cmd_board_controller)
qed

lemma click_outside_ignored:
  assumes "engine (gui_controller g) \<noteq> None" "board_size (gui_controller g) = JInt n"
    and "\<not> (0 \<le> click_row ev \<and> click_row ev < n \<and> 0 \<le> click_col ev \<and> click_col ev < n)"
  shows "on_canvas_click env refresh ev g = (None, g)"
  using assms by (auto simp add: on_canvas_click_def below_size_def bindE_def)

text \<open>
  C2, as the code has it: the click handler of the window drops a click outside
  \<open>[0, size)\<close> without calling the controller; the move command of the console rejects a
  coordinate below one and compares it with no board size, so every positive row and
  column that \<^verbatim>\<open>int\<close> reads (at most 4300 digits each) reaches the engine, also beyond
  the board; \<^verbatim>\<open>place_stone\<close> checks nothing and hands \<^verbatim>\<open>Position(row, col)\<close> to
  \<^verbatim>\<open>engine.play_move\<close> for every row and column.
\<close>

theorem position_checks:
  "(engine c = Some eng \<longrightarrow>
      place_stone env row col c =
        (fst (engine_play_move env (Position row col) eng),
         c\<lparr>engine := Some (snd (engine_play_move env (Position row col) eng))\<rparr>))
   \<and> (engine (controller cl) = Some eng' \<and> 0 < r \<and> 0 < k
        \<and> length (str_int r) \<le> max_str_digits \<and> length (str_int k) \<le> max_str_digits \<longrightarrow>
        engine (controller (snd (cmd_move env [str_int r, str_int k] cl)))
          = Some (snd (engine_play_move env (Position (r - 1) (k - 1)) eng')))
   \<and> (r \<le> 0 \<or> k \<le> 0 \<longrightarrow>
        (\<exists>m. cmd_move env [str_int r, str_int k] cl = (Some (ValueError m), cl)))
   \<and> (engine (gui_controller g) \<noteq> None \<and> board_size (gui_controller g) = JInt n
        \<and> \<not> (0 \<le> click_row ev \<and> click_row ev < n \<and> 0 \<le> click_col ev \<and> click_col ev < n) \<longrightarrow>
        on_canvas_click env refresh ev g = (None, g))"
  using place_stone_forwards [of c eng env row col]
    cmd_move_hands_position [of cl eng' r k env]
    cmd_move_rejected [of "str_int r" "str_int k" env cl]
    click_outside_ignored [of g n ev env refresh]
    py_int_str_int_cases [of r] py_int_str_int_cases [of k]
  by auto

theorem position_checks_witness:
  "place_stone probe_env 99 99 \<lparr>engine = Some [], game_type = Some GOMOKU, board_size = JInt 15\<rparr>
     = (None, \<lparr>engine = Some [Position 99 99], game_type = Some GOMOKU, board_size = JInt 15\<rparr>)
   \<and> engine (controller (snd (cmd_move probe_env [str_int 100, str_int 100]
        \<lparr>controller = \<lparr>engine = Some [], game_type = Some GOMOKU, board_size = JInt 15\<rparr>,
         running = True, show_prompts = True, printed = []\<rparr>)))
     = Some [Position 99 99]
   \<and> (\<exists>m. cmd_move probe_env [str_int 0, str_int 100]
        \<lparr>controller = \<lparr>engine = Some [], game_type = Some GOMOKU, board_size = JInt 15\<rparr>,
         running = True, show_prompts = True, printed = []\<rparr>
       = (Some (ValueError m),
          \<lparr>controller = \<lparr>engine = Some [], game_type = Some GOMOKU, board_size = JInt 15\<rparr>,
           running = True, show_prompts = True, printed = []\<rparr>))
   \<and> on_canvas_click probe_env (\<lambda>w. (None, w))
        \<lparr>in_area = True, click_row = 15, click_col = 3\<rparr>
        \<lparr>gui_controller = \<lparr>engine = Some [], game_type = Some GOMOKU, board_size = JInt 15\<rparr>,
         game_type_var = gomoku_key, board_size_var = ''15'', board_area = True,
         result_notified = False, dialogs = []\<rparr>
     = (None,
        \<lparr>gui_controller = \<lparr>engine = Some [], game_type = Some GOMOKU, board_size = JInt 15\<rparr>,
         game_type_var = gomoku_key, board_size_var = ''15'', board_area = True,
         result_notified = False, dialogs = []\<rparr>)"
  using position_checks [of "\<lparr>engine = Some [], game_type = Some GOMOKU, board_size = JInt 15\<rparr>"
      "[]" probe_env 99 99
      "\<lparr>controller = \<lparr>engine = Some [], game_type = Some GOMOKU, board_size = JInt 15\<rparr>,
        running = True, show_prompts = True, printed = []\<rparr>" "[]" 100 100
      "\<lparr>gui_controller = \<lparr>engine = Some [], game_type = Some GOMOKU, board_size = JInt 15\<rparr>,
        game_type_var = gomoku_key, board_size_var = ''15'', board_area = True,
        result_notified = False, dialogs = []\<rparr>" 15
      "\<lparr>in_area = True, click_row = 15, click_col = 3\<rparr>" "\<lambda>w. (None, w)"]
    position_checks [of "\<lparr>engine = Some [], game_type = Some GOMOKU, board_size = JInt 15\<rparr>"
      "[]" probe_env 99 99
      "\<lparr>controller = \<lparr>engine = Some [], game_type = Some GOMOKU, board_size = JInt 15\<rparr>,
        running = True, show_prompts = True, printed = []\<rparr>" "[]" 0 100
      "\<lparr>gui_controller = \<lparr>engine = Some [], game_type = Some GOMOKU, board_size = JInt 15\<rparr>,
        game_type_var = gomoku_key, board_size_var = ''15'', board_area = True,
        result_notified = False, dialogs = []\<rparr>" 15
      "\<lparr>in_area = True, click_row = 15, click_col = 3\<rparr>" "\<lambda>w. (None, w)"]
  by (simp add: probe_env_def str_int_examples max_str_digits_def)

text \<open>
  C2 as stated fails: on a 15 by 15 board, \<^verbatim>\<open>move 100 100\<close> makes the controller build
  \<^verbatim>\<open>Position(99, 99)\<close> and hand it to the engine, and \<^verbatim>\<open>place_stone(-1, 42)\<close> hands over
  \<^verbatim>\<open>Position(-1, 42)\<close>.
\<close>

theorem position_unchecked_counterexample:
  "engine (controller (snd (cmd_move probe_env [''100'', ''100'']
        \<lparr>controller = \<lparr>engine = Some [], game_type = Some GOMOKU, board_size = JInt 15\<rparr>,
         running = True, show_prompts = True, printed = []\<rparr>)))
     = Some [Position 99 99]
   \<and> place_stone probe_env (- 1) 42
        \<lparr>engine = Some [], game_type = Some GOMOKU, board_size = JInt 15\<rparr>
     = (None, \<lparr>engine = Some [Position (- 1) 42], game_type = Some GOMOKU, board_size = JInt 15\<rparr>)"
  by (simp add: cmd_move_def parse_coordinate_def py_int_examples place_stone_def on_engine_def
      require_engine_def probe_env_def cmd_board_def get_board_display_def bindE_def)

subsection \<open>The board size at the start of a game\<close>

text \<open>The two paths that start a game check the size before the controller is called;
  the path through \<^verbatim>\<open>load\<close> (\<open>load_passes_saved_size\<close>) leaves it to the engine.\<close>

lemma cmd_start_size_rejected:
  assumes "py_int a1 = Some n" "n < 8 \<or> 19 < n"
  shows "\<exists>e. cmd_start env [a0, a1] cl = (Some e, cl)"
  using assms by (auto simp add: cmd_start_def split: sum.splits)

lemma cmd_start_size_not_integer:
  assumes "py_int a1 = None"
  shows "\<exists>e. cmd_start env [a0, a1] cl = (Some e, cl)"
  using assms by (auto simp add: cmd_start_def split: sum.splits)

lemma gui_start_size_rejected:
  assumes "py_int (board_size_var g) = None
         \<or> (\<exists>n. py_int (board_size_var g) = Some n \<and> (n < 8 \<or> 19 < n))"
  shows "\<exists>e. gui_start_game env refresh g = handle_error e g"
  using assms by (auto simp add: gui_start_game_def read_board_size_def split: sum.splits)

lemma handle_error_controller: "gui_controller (handle_error e g) = gui_controller g"
  by (simp add: handle_error_def)

section \<open>Saving, and the engine of the spec\<close>

lemma save_payload_written:
  assumes "engine c = Some eng" "game_type c = Some gt" "engine_serialize env eng = Inr st"
  shows "save env file_path fs c =
           persistence_save_game env file_path
             (JObj [(''game_type'', JStr (GameType_value env gt)), (''state'', st)]) fs"
  using assms by (simp add: save_def require_engine_def save_payload_def)

lemma serialize_state_board_size:
  "py_get (serialize_state s) ''board_size'' = Inr (JInt (int (bsize (board s))))"
  by (simp add: serialize_state_def)

lemma variant_tag_value: "GameType_of_value (spec_env cfg) (JStr (variant_tag gt)) = Inr gt"
  by (cases gt) (simp_all add: GameType_of_value_def spec_env_def variant_tag_def)

lemma saved_payload_checks:
  "load_checks (spec_env cfg)
     (JObj [(''game_type'', JStr (variant_tag gt)), (''state'', serialize_state s)])
   = Inr (gt, serialize_state s, JInt (int (bsize (board s))))"
  by (simp add: load_checks_JObj variant_tag_value serialize_state_board_size bindE_def)

text \<open>
  C7: with an active game of type \<open>gt\<close>, \<^verbatim>\<open>save\<close> hands \<^verbatim>\<open>persistence.save_game\<close> the
  dictionary of exactly two keys, \<^verbatim>\<open>game_type\<close> with the value of the game type and
  \<^verbatim>\<open>state\<close> with what the engine serialized. The board size is no key of that
  dictionary; the state of the spec's codec holds it under \<^verbatim>\<open>board_size\<close>, and the checks
  of \<^verbatim>\<open>load\<close> read it back from there.
\<close>

theorem save_writes_type_and_state:
  "(engine c = Some eng \<and> game_type c = Some gt \<and> engine_serialize env eng = Inr st \<longrightarrow>
      save env file_path fs c =
        persistence_save_game env file_path
          (JObj [(''game_type'', JStr (GameType_value env gt)), (''state'', st)]) fs)
   \<and> (engine c' = Some s \<and> game_type c' = Some gt \<longrightarrow>
        save (spec_env cfg) file_path fs' c' =
          (None, (file_path, JObj [(''game_type'', JStr (variant_tag gt)),
                                   (''state'', serialize_state s)]) # fs'))
   \<and> py_get (serialize_state s) ''board_size'' = Inr (JInt (int (bsize (board s))))
   \<and> load_checks (spec_env cfg)
        (JObj [(''game_type'', JStr (variant_tag gt)), (''state'', serialize_state s)])
      = Inr (gt, serialize_state s, JInt (int (bsize (board s))))"
  using save_payload_written [of c eng gt env st file_path fs]
    save_payload_written [of c' s gt "spec_env cfg" "serialize_state s" file_path fs']
    serialize_state_board_size [of s] saved_payload_checks [of cfg gt s]
  by (simp add: spec_env_def)

lemma resign_game_result:
  "resign_game k s =
     (if status s = InProgress
      then Inr (s\<lparr>status := Finished (Some (opposite k)) Resignation,
                 history := Resigned k # history s\<rparr>)
      else Inl GameFinished)"
  by (simp add: resign_game_def)

text \<open>
  C5: on the engine of the spec, \<^verbatim>\<open>resign(color)\<close> through the controller finishes any
  game in progress with the opposite colour as winner and resignation as reason, whatever
  the board holds and whoever is to move; on a finished game it fails with GameFinished
  and changes nothing. Without a colour the controller resigns for the player to move.
\<close>

theorem resign_ends_game:
  "(engine c = Some s \<and> status s = InProgress \<longrightarrow>
      resign (spec_env cfg) (Some k) c =
        (None, c\<lparr>engine := Some (s\<lparr>status := Finished (Some (opposite k)) Resignation,
                                   history := Resigned k # history s\<rparr>)\<rparr>)
      \<and> resign (spec_env cfg) None c =
        (None, c\<lparr>engine := Some (s\<lparr>status := Finished (Some (opposite (current_player s))) Resignation,
                                   history := Resigned (current_player s) # history s\<rparr>)\<rparr>))
   \<and> (engine c = Some s \<and> status s \<noteq> InProgress \<longrightarrow>
        resign (spec_env cfg) (Some k) c = (Some (raised GameFinished), c))"
  by (auto simp add: resign_def on_engine_def require_engine_def spec_env_def engine_call_def
      resign_game_def)

theorem save_writes_type_and_state_witness:
  "save probe_env ''game.json'' []
      \<lparr>engine = Some [Position 2 3], game_type = Some GO, board_size = JInt 9\<rparr>
     = (None, [(''game.json'', JObj [(''game_type'', JStr ''go''), (''state'', JObj [])])])
   \<and> save (spec_env example_allotment) ''game.json'' []
      \<lparr>engine = Some (new_engine example_allotment GO 9), game_type = Some GO,
       board_size = JInt 9\<rparr>
     = (None, [(''game.json'',
                JObj [(''game_type'', JStr ''go''),
                      (''state'', serialize_state (new_engine example_allotment GO 9))])])
   \<and> py_get (serialize_state (new_engine example_allotment GO 9)) ''board_size'' = Inr (JInt 9)"
  using save_writes_type_and_state
    [of "\<lparr>engine = Some [Position 2 3], game_type = Some GO, board_size = JInt 9\<rparr>"
        "[Position 2 3]" GO probe_env "JObj []" "''game.json''" "[]"
        "\<lparr>engine = Some (new_engine example_allotment GO 9), game_type = Some GO,
          board_size = JInt 9\<rparr>"
        "new_engine example_allotment GO 9" example_allotment "[]"]
  by (simp add: probe_env_def variant_tag_def new_engine_def empty_board_def)

theorem resign_ends_game_witness:
  "resign (spec_env example_allotment) (Some BLACK)
      \<lparr>engine = Some (new_engine example_allotment GOMOKU 8), game_type = Some GOMOKU,
       board_size = JInt 8\<rparr>
     = (None,
        \<lparr>engine = Some ((new_engine example_allotment GOMOKU 8)
                          \<lparr>status := Finished (Some WHITE) Resignation,
                           history := [Resigned BLACK]\<rparr>),
         game_type = Some GOMOKU, board_size = JInt 8\<rparr>)
   \<and> resign (spec_env example_allotment) (Some BLACK)
      \<lparr>engine = Some ((new_engine example_allotment GOMOKU 8)
                        \<lparr>status := Finished None Board_full_draw\<rparr>),
       game_type = Some GOMOKU, board_size = JInt 8\<rparr>
     = (Some (ValueError (Text ''GameFinished'')),
        \<lparr>engine = Some ((new_engine example_allotment GOMOKU 8)
                          \<lparr>status := Finished None Board_full_draw\<rparr>),
         game_type = Some GOMOKU, board_size = JInt 8\<rparr>)"
  using resign_ends_game
    [of "\<lparr>engine = Some (new_engine example_allotment GOMOKU 8), game_type = Some GOMOKU,
          board_size = JInt 8\<rparr>"
        "new_engine example_allotment GOMOKU 8" example_allotment BLACK]
    resign_ends_game
    [of "\<lparr>engine = Some ((new_engine example_allotment GOMOKU 8)
                           \<lparr>status := Finished None Board_full_draw\<rparr>),
          game_type = Some GOMOKU, board_size = JInt 8\<rparr>"
        "(new_engine example_allotment GOMOKU 8)\<lparr>status := Finished None Board_full_draw\<rparr>"
        example_allotment BLACK]
  by (simp add: new_engine_def opposite_def raised_def error_name_def)

section \<open>Undo on the engine of the spec\<close>

subsection \<open>The board after a capture is put back\<close>

lemma index_of_bsize: "bsize b' = bsize b \<Longrightarrow> index_of b' = index_of b"
  by (rule ext) (simp add: index_of_def split: Position.splits)

lemma Board_set_bsize [simp]: "bsize (Board_set b q v) = bsize b"
  by (simp add: Board_set_def)

lemma Board_set_cells: "cells (Board_set b q v) = (cells b)[index_of b q := v]"
  by (simp add: Board_set_def)

lemma remove_stones_bsize [simp]: "bsize (remove_stones caps b) = bsize b"
  unfolding remove_stones_def by (induction caps arbitrary: b) simp_all

lemma restore_stones_bsize [simp]: "bsize (restore_stones caps b) = bsize b"
  unfolding restore_stones_def by (induction caps arbitrary: b) simp_all

lemma remove_stones_cells:
  "cells (remove_stones caps b)
     = fold (\<lambda>qk cs. cs[index_of b (fst qk) := None]) caps (cells b)"
  unfolding remove_stones_def
proof (induction caps arbitrary: b)
  case Nil
  then show ?case by simp
next
  case (Cons qk caps)
  have "index_of (Board_set b (fst qk) None) = index_of b"
    by (rule index_of_bsize) simp
  then show ?case
    using Cons [of "Board_set b (fst qk) None"] by (simp add: Board_set_cells)
qed

lemma restore_stones_cells:
  "cells (restore_stones caps b)
     = fold (\<lambda>qk cs. cs[index_of b (fst qk) := Some (snd qk)]) caps (cells b)"
  unfolding restore_stones_def
proof (induction caps arbitrary: b)
  case Nil
  then show ?case by simp
next
  case (Cons qk caps)
  have "index_of (Board_set b (fst qk) (Some (snd qk))) = index_of b"
    by (rule index_of_bsize) simp
  then show ?case
    using Cons [of "Board_set b (fst qk) (Some (snd qk))"] by (simp add: Board_set_cells)
qed

lemma fold_update_length [simp]:
  "length (fold (\<lambda>qk cs. cs[f qk := g qk]) caps xs) = length xs"
  by (induction caps arbitrary: xs) simp_all

lemma removed_nth:
  "j < length xs \<Longrightarrow>
     fold (\<lambda>qk cs. cs[f (fst qk) := None]) caps xs ! j
       = (if j \<in> (\<lambda>qk. f (fst qk)) ` set caps then None else xs ! j)"
  by (induction caps arbitrary: xs) (auto simp add: nth_list_update)

lemma restored_nth:
  assumes "\<forall>qk \<in> set caps. f (fst qk) < length cs \<longrightarrow> cs ! f (fst qk) = Some (snd qk)"
    and "length xs = length cs" "j < length cs"
  shows "fold (\<lambda>qk ys. ys[f (fst qk) := Some (snd qk)]) caps xs ! j
           = (if j \<in> (\<lambda>qk. f (fst qk)) ` set caps then cs ! j else xs ! j)"
  using assms by (induction caps arbitrary: xs) (auto simp add: nth_list_update)

lemma restore_after_remove:
  assumes "\<forall>qk \<in> set caps. f (fst qk) < length cs \<longrightarrow> cs ! f (fst qk) = Some (snd qk)"
  shows "fold (\<lambda>qk ys. ys[f (fst qk) := Some (snd qk)]) caps
           (fold (\<lambda>qk ys. ys[f (fst qk) := None]) caps cs) = cs"
proof (rule nth_equalityI)
  show "length (fold (\<lambda>qk ys. ys[f (fst qk) := Some (snd qk)]) caps
           (fold (\<lambda>qk ys. ys[f (fst qk) := None]) caps cs)) = length cs"
    by simp
next
  fix j
  assume "j < length (fold (\<lambda>qk ys. ys[f (fst qk) := Some (snd qk)]) caps
           (fold (\<lambda>qk ys. ys[f (fst qk) := None]) caps cs))"
  then have j: "j < length cs" by simp
  have l: "length (fold (\<lambda>qk ys. ys[f (fst qk) := None]) caps cs) = length cs" by simp
  have "fold (\<lambda>qk ys. ys[f (fst qk) := Some (snd qk)]) caps
           (fold (\<lambda>qk ys. ys[f (fst qk) := None]) caps cs) ! j
        = (if j \<in> (\<lambda>qk. f (fst qk)) ` set caps then cs ! j
           else fold (\<lambda>qk ys. ys[f (fst qk) := None]) caps cs ! j)"
    by (rule restored_nth [OF assms l j])
  also have "\<dots> = cs ! j"
    using removed_nth [OF j, of f caps] by simp
  finally show "fold (\<lambda>qk ys. ys[f (fst qk) := Some (snd qk)]) caps
           (fold (\<lambda>qk ys. ys[f (fst qk) := None]) caps cs) ! j = cs ! j" .
qed

lemma with_colours_recorded:
  "qk \<in> set (with_colours b ps) \<Longrightarrow> cell b (fst qk) = Some (snd qk)"
  by (auto simp add: with_colours_def List.map_filter_def)

lemma cell_Some_iff:
  "cell b q = Some k \<longleftrightarrow> index_of b q < length (cells b) \<and> cells b ! index_of b q = Some k"
  by (simp add: cell_def)

text \<open>Taking the captured stones off and putting them back gives the board back.\<close>

lemma restore_removed_board:
  assumes "\<forall>qk \<in> set caps. cell b (fst qk) = Some (snd qk)"
  shows "restore_stones caps (remove_stones caps b) = b"
proof -
  have "\<forall>qk \<in> set caps. index_of b (fst qk) < length (cells b)
          \<longrightarrow> cells b ! index_of b (fst qk) = Some (snd qk)"
    using assms by (simp add: cell_Some_iff)
  moreover have "index_of (remove_stones caps b) = index_of b"
    by (rule index_of_bsize) simp
  ultimately have "cells (restore_stones caps (remove_stones caps b)) = cells b"
    using restore_after_remove [of caps "index_of b" "cells b"]
    by (simp add: restore_stones_cells remove_stones_cells)
  then show ?thesis
    by (intro Board.equality) simp_all
qed

lemma unplace_placed:
  assumes "cell b p = None"
  shows "Board_set (Board_set b p (Some k)) p None = b"
proof -
  have "(cells b)[index_of b p := None] = cells b"
  proof (cases "index_of b p < length (cells b)")
    case True
    then show ?thesis using assms by (simp add: cell_def list_update_same_conv)
  next
    case False
    then show ?thesis by (simp add: list_update_beyond)
  qed
  moreover have "index_of (Board_set b p (Some k)) = index_of b"
    by (rule index_of_bsize) simp
  ultimately have "cells (Board_set (Board_set b p (Some k)) p None) = cells b"
    by (simp add: Board_set_cells)
  then show ?thesis
    by (intro Board.equality) simp_all
qed

subsection \<open>Undo after a move\<close>

lemma pc_put_back:
  "0 < pc_get k st \<Longrightarrow>
     pc_put k (Suc (pc_get k (pc_put k (pc_get k st - Suc 0) st)))
       (pc_put k (pc_get k st - Suc 0) st) = st"
  by (cases k) (simp_all add: pc_get_def pc_put_def)

lemma play_move_cases:
  assumes "play_move p s = Inr s1"
  obtains caps b ko st where
    "s1 = commit_move s p caps b ko st"
    "Board_set (restore_stones caps b) p None = board s"
    "status s = InProgress" "0 < pc_get (current_player s) (stones (ledger s))"
proof (cases "variant s")
  case GOMOKU
  let ?b = "Board_set (board s) p (Some (current_player s))"
  from assms GOMOKU have ok: "status s = InProgress" "cell (board s) p = None"
      "0 < pc_get (current_player s) (stones (ledger s))"
    and s1: "s1 = commit_move s p [] ?b None (gomoku_status ?b (current_player s) p)"
    by (auto simp add: play_move_def Let_def split: if_splits)
  have "Board_set (restore_stones [] ?b) p None = board s"
    using ok(2) by (simp add: restore_stones_def unplace_placed)
  with s1 show ?thesis by (rule that [OF _ _ ok(1) ok(3)])
next
  case GO
  let ?b1 = "Board_set (board s) p (Some (current_player s))"
  let ?caps = "with_colours ?b1 (dead_neighbours ?b1 (current_player s) p)"
  let ?b2 = "remove_stones ?caps ?b1"
  from assms GO have ok: "status s = InProgress" "cell (board s) p = None"
      "0 < pc_get (current_player s) (stones (ledger s))"
    and s1: "s1 = commit_move s p ?caps ?b2 (next_ko ?b2 p ?caps) InProgress"
    by (auto simp add: play_move_def Let_def split: if_splits)
  have "restore_stones ?caps ?b2 = ?b1"
    by (rule restore_removed_board) (simp add: with_colours_recorded)
  then have "Board_set (restore_stones ?caps ?b2) p None = board s"
    using ok(2) by (simp add: unplace_placed)
  with s1 show ?thesis by (rule that [OF _ _ ok(1) ok(3)])
qed

lemma undo_placed:
  assumes "play_move p s = Inr s1" "status s1 = InProgress"
    "0 < pc_get (current_player s) (undos (ledger s))"
  shows "undo_move s1 = Inr (s\<lparr>ledger := spend_undo (current_player s) (ledger s)\<rparr>)"
proof -
  from assms(1) obtain caps b ko st where
    s1: "s1 = commit_move s p caps b ko st"
    and b: "Board_set (restore_stones caps b) p None = board s"
    and ok: "status s = InProgress" "0 < pc_get (current_player s) (stones (ledger s))"
    by (rule play_move_cases)
  define k where "k = current_player s"
  have h: "history s1 = Placed p caps (ko_marker s) (pass_count s) k # history s"
    and l: "ledger s1 = (ledger s)\<lparr>stones := pc_put k (pc_get k (stones (ledger s)) - 1) (stones (ledger s))\<rparr>"
    and bd: "board s1 = b" and v: "variant s1 = variant s"
    by (subst s1, simp add: commit_move_def k_def)+
  have u: "pc_get k (undos (ledger s1)) \<noteq> 0"
    using assms(3) by (simp add: l k_def)
  have refund: "(ledger s1)\<lparr>stones := pc_put k (Suc (pc_get k (stones (ledger s1)))) (stones (ledger s1))\<rparr>
              = ledger s"
    using ok(2) by (simp add: l k_def pc_put_back)
  have "undo_move s1 =
          Inr (s1\<lparr>history := history s, current_player := k, ko_marker := ko_marker s,
                  pass_count := pass_count s, board := board s,
                  ledger := spend_undo k (ledger s)\<rparr>)"
    using assms(2) u by (simp add: undo_move_def h bd b refund)
  also have "s1\<lparr>history := history s, current_player := k, ko_marker := ko_marker s,
                  pass_count := pass_count s, board := board s,
                  ledger := spend_undo k (ledger s)\<rparr>
             = s\<lparr>ledger := spend_undo k (ledger s)\<rparr>"
    using assms(2) ok(1) v by (intro EngineState.equality) (simp_all add: k_def)
  finally show ?thesis by (simp add: k_def)
qed

lemma undo_passed:
  assumes "pass_move s = Inr s1" "status s1 = InProgress"
    "0 < pc_get (current_player s) (undos (ledger s))"
  shows "undo_move s1 = Inr (s\<lparr>ledger := spend_undo (current_player s) (ledger s)\<rparr>)"
proof -
  from assms(1) have ok: "status s = InProgress"
    and s1: "s1 = s\<lparr>history := Passed (ko_marker s) (pass_count s) (current_player s) # history s,
                 current_player := opposite (current_player s),
                 ko_marker := None,
                 pass_count := pass_count s + 1,
                 status := status s1\<rparr>"
    by (auto simp add: pass_move_def split: if_splits)
  have h: "history s1 = Passed (ko_marker s) (pass_count s) (current_player s) # history s"
    and l: "ledger s1 = ledger s" and bd: "board s1 = board s" and v: "variant s1 = variant s"
    by (subst s1, simp)+
  have "undo_move s1 =
          Inr (s1\<lparr>history := history s, current_player := current_player s,
                  ko_marker := ko_marker s, pass_count := pass_count s,
                  ledger := spend_undo (current_player s) (ledger s)\<rparr>)"
    using assms(2,3) by (simp add: undo_move_def h l)
  also have "s1\<lparr>history := history s, current_player := current_player s,
                  ko_marker := ko_marker s, pass_count := pass_count s,
                  ledger := spend_undo (current_player s) (ledger s)\<rparr>
             = s\<lparr>ledger := spend_undo (current_player s) (ledger s)\<rparr>"
    using assms(2) ok v bd by (intro EngineState.equality) simp_all
  finally show ?thesis .
qed

lemma undo_finished: "status s1 \<noteq> InProgress \<Longrightarrow> undo_move s1 = Inl GameFinished"
  by (simp add: undo_move_def)

lemma undo_exhausted:
  assumes "apply_move m s = Inr s1" "status s1 = InProgress"
    "pc_get (current_player s) (undos (ledger s)) = 0"
  shows "undo_move s1 = Inl UndoExhausted"
proof (cases m)
  case (Place p)
  with assms(1) have "play_move p s = Inr s1" by (simp add: apply_move_def)
  then obtain caps b ko st where s1: "s1 = commit_move s p caps b ko st"
    by (rule play_move_cases)
  have "history s1 = Placed p caps (ko_marker s) (pass_count s) (current_player s) # history s"
    and "undos (ledger s1) = undos (ledger s)"
    by (subst s1, simp add: commit_move_def)+
  then show ?thesis using assms(2,3) by (simp add: undo_move_def)
next
  case Pass
  with assms(1) have "pass_move s = Inr s1" by (simp add: apply_move_def)
  then have "history s1 = Passed (ko_marker s) (pass_count s) (current_player s) # history s"
    and "ledger s1 = ledger s"
    by (auto simp add: pass_move_def split: if_splits)
  then show ?thesis using assms(2,3) by (simp add: undo_move_def)
qed

lemma undo_reverts:
  assumes "apply_move m s = Inr s1" and "status s1 = InProgress"
    and "0 < pc_get (current_player s) (undos (ledger s))"
  shows "undo_move s1 = Inr (s\<lparr>ledger := spend_undo (current_player s) (ledger s)\<rparr>)"
  using assms by (cases m) (simp_all add: apply_move_def undo_placed undo_passed)

text \<open>
  C6: on the engine of the spec, take a move (a placement, or a pass in Go) that is
  accepted in state \<open>s\<close> and gives state \<open>s1\<close>; a move is accepted only in a game in
  progress. If the game is still in progress in \<open>s1\<close> and the player who moved has an
  undo left, \<^verbatim>\<open>undo\<close> gives back \<open>s\<close> (variant, board, stones of the ledger, player to
  move, ko marker, count of passes, history, status) with the undos of that player one
  less. If the move finished the game, \<^verbatim>\<open>undo\<close> fails with GameFinished. If the game is
  still in progress and the player who moved has no undo left, \<^verbatim>\<open>undo\<close> fails with
  UndoExhausted.
\<close>

theorem undo_reverts_move:
  "(apply_move m s = Inr s1 \<and> status s1 = InProgress
      \<and> 0 < pc_get (current_player s) (undos (ledger s)) \<longrightarrow>
      undo_move s1 = Inr (s\<lparr>ledger := spend_undo (current_player s) (ledger s)\<rparr>))
   \<and> (apply_move m s = Inr s1 \<and> status s1 \<noteq> InProgress \<longrightarrow>
        undo_move s1 = Inl GameFinished)
   \<and> (apply_move m s = Inr s1 \<and> status s1 = InProgress
        \<and> pc_get (current_player s) (undos (ledger s)) = 0 \<longrightarrow>
        undo_move s1 = Inl UndoExhausted)"
  using undo_reverts [of m s s1] undo_finished [of s1] undo_exhausted [of m s s1]
  by blast

theorem undo_reverts_move_witness:
  "apply_move (Place (Position 1 0)) capture_example = Inr captured_example
   \<and> cell (board captured_example) (Position 0 0) = None
   \<and> status captured_example = InProgress
   \<and> pc_get BLACK (undos (ledger capture_example)) = 3
   \<and> undo_move captured_example
       = Inr (capture_example\<lparr>ledger := spend_undo BLACK (ledger capture_example)\<rparr>)
   \<and> apply_move (Place (Position 0 4)) four_in_a_row_example = Inr won_example
   \<and> status won_example = Finished (Some BLACK) Five_in_a_row
   \<and> undo_move won_example = Inl GameFinished
   \<and> apply_move (Place (Position 3 3)) no_undo_example = Inr no_undo_moved_example
   \<and> status no_undo_moved_example = InProgress
   \<and> pc_get BLACK (undos (ledger no_undo_example)) = 0
   \<and> undo_move no_undo_moved_example = Inl UndoExhausted"
proof -
  have a: "apply_move (Place (Position 1 0)) capture_example = Inr captured_example"
    by code_simp
  have b: "status captured_example = InProgress"
    by code_simp
  have c: "0 < pc_get (current_player capture_example) (undos (ledger capture_example))"
    by code_simp
  have d: "current_player capture_example = BLACK"
    by code_simp
  have e: "cell (board captured_example) (Position 0 0) = None"
    by code_simp
  have f: "pc_get BLACK (undos (ledger capture_example)) = 3"
    by code_simp
  have g: "apply_move (Place (Position 0 4)) four_in_a_row_example = Inr won_example"
    by code_simp
  have h: "status won_example = Finished (Some BLACK) Five_in_a_row"
    by code_simp
  have i: "apply_move (Place (Position 3 3)) no_undo_example = Inr no_undo_moved_example"
    by code_simp
  have j: "status no_undo_moved_example = InProgress"
    by code_simp
  have k: "current_player no_undo_example = BLACK"
    by code_simp
  have l: "pc_get BLACK (undos (ledger no_undo_example)) = 0"
    by code_simp
  from undo_reverts_move [of "Place (Position 1 0)" capture_example captured_example]
    undo_reverts_move [of "Place (Position 0 4)" four_in_a_row_example won_example]
    undo_reverts_move [of "Place (Position 3 3)" no_undo_example no_undo_moved_example]
    a b c d e f g h i j k l
  show ?thesis by simp
qed

text \<open>The move that completes five in a row is legal in a game in progress, and cannot
  be undone.\<close>

theorem winning_move_not_undone:
  "status four_in_a_row_example = InProgress
   \<and> (case apply_move (Place (Position 0 4)) four_in_a_row_example of
        Inl e \<Rightarrow> False
      | Inr s1 \<Rightarrow> status s1 = Finished (Some BLACK) Five_in_a_row
                  \<and> undo_move s1 = Inl GameFinished)"
  by code_simp

text \<open>A move of a player with no undo left is legal, and cannot be undone.\<close>

lemma exhausted_move_not_undone:
  "status no_undo_example = InProgress
   \<and> (case apply_move (Place (Position 3 3)) no_undo_example of
        Inl e \<Rightarrow> False
      | Inr s1 \<Rightarrow> status s1 = InProgress \<and> undo_move s1 = Inl UndoExhausted)"
  by code_simp

end
